theory Spec2Isabelle
  imports Main "HOL-Library.Word"
begin

unbundle bit_operations_syntax

section \<open>Event hashing and deduplication\<close>

text \<open>
  A JavaScript string is a sequence of UTF-16 code units; \<open>charCodeAt\<close> reads one of
  them as a number between 0 and 65535. The serialization \<open>JSON.stringify(event)\<close> of
  an assembled event is therefore modelled as a list of 16-bit words. Identifiers, keys
  and messages that the code only compares or stores are modelled as \<open>string\<close>.
\<close>

type_synonym utf16 = "16 word list"

subsection \<open>\<open>hashEvent\<close>\<close>

text \<open>
  \<^verbatim>\<open>
  function hashEvent(event: any) {
    const data = JSON.stringify(event);
    let hash = 0;
    for (let i = 0, len = data.length; i < len; i++) {
      let chr = data.charCodeAt(i);
      hash = (hash << 5) - hash + chr;
      hash |= 0; // Convert to 32bit integer
    }
    return hash.toString();
  }
  \<close>
  JavaScript numbers are doubles; all the intermediate values of the loop are integers
  far below \<open>2 ^ 53\<close>, so they are modelled as unbounded \<open>int\<close> with the two
  conversions to a 32-bit signed integer written out: \<open>hash << 5\<close> converts its left
  operand with ToInt32, shifts and wraps the result to 32 bits, and \<open>hash |= 0\<close> is
  ToInt32 of the sum.
\<close>

definition ToInt32 :: "int \<Rightarrow> int" where
  "ToInt32 n = (n + 2 ^ 31) mod 2 ^ 32 - 2 ^ 31"

definition shl5 :: "int \<Rightarrow> int" where
  "shl5 h = ToInt32 (ToInt32 h * 2 ^ 5)"

fun hashLoop :: "utf16 \<Rightarrow> int \<Rightarrow> int" where
  "hashLoop [] hash = hash"
| "hashLoop (chr # rest) hash = hashLoop rest (ToInt32 (shl5 hash - hash + uint chr))"

text \<open>\<open>Number.prototype.toString()\<close> on an integer: its decimal digits, with a minus sign.\<close>

definition digit_char :: "nat \<Rightarrow> char" where
  "digit_char d = char_of (48 + d)"

fun nat_toString :: "nat \<Rightarrow> string" where
  "nat_toString n = (if n < 10 then [digit_char n] else nat_toString (n div 10) @ [digit_char (n mod 10)])"

declare nat_toString.simps [simp del]

definition int_toString :: "int \<Rightarrow> string" where
  "int_toString i = (if i < 0 then CHR ''-'' # nat_toString (nat (- i)) else nat_toString (nat i))"

text \<open>
  \<open>JSON.stringify\<close> is a builtin of the platform: it is a parameter of the model. Every
  call site passes an object literal, for which it returns a string.
\<close>

definition hashEvent :: "('ev \<Rightarrow> utf16) \<Rightarrow> 'ev \<Rightarrow> string" where
  "hashEvent JSON_stringify event = int_toString (hashLoop (JSON_stringify event) 0)"

text \<open>The fold that the claim describes, on 32-bit words.\<close>

definition hash_step :: "32 word \<Rightarrow> 16 word \<Rightarrow> 32 word" where
  "hash_step hash chr = push_bit 5 hash - hash + ucast chr"

definition hash_fold :: "utf16 \<Rightarrow> 32 word" where
  "hash_fold data = foldl hash_step 0 data"

subsection \<open>\<open>checkShouldLogEvent\<close> and the deduplication record\<close>

text \<open>
  The deduplication record lives in \<open>localStorage\<close> under the key
  \<open>PF_EVENTS_HASH_MAP\<close>, as the JSON array of the entries of a
  \<open>Map<string, number>\<close>; \<open>loadMap\<close> reads it back (the empty map when the key
  was never written) and \<open>storeMap\<close> writes it. The map is modelled as a HOL map from
  hash strings to timestamps, the storage slot as an optional map. Timestamps are the
  integers that \<open>Date.now()\<close> returns (milliseconds since the epoch); the clock reading
  is a parameter of the model.
\<close>

type_synonym dedup_record = "string \<rightharpoonup> int"

record local_storage =
  PF_EVENTS_HASH_MAP :: "dedup_record option"

definition MIN_TIME_DIFF_FOR_EVENT_LOG_MS :: int where
  "MIN_TIME_DIFF_FOR_EVENT_LOG_MS = 1000"

definition loadMap :: "'a local_storage_scheme \<Rightarrow> dedup_record" where
  "loadMap ls = (case PF_EVENTS_HASH_MAP ls of None \<Rightarrow> Map.empty | Some storedHashMap \<Rightarrow> storedHashMap)"

definition storeMap :: "dedup_record \<Rightarrow> 'a local_storage_scheme \<Rightarrow> 'a local_storage_scheme" where
  "storeMap hashMap ls = ls\<lparr>PF_EVENTS_HASH_MAP := Some hashMap\<rparr>"

definition storeEvent :: "string \<Rightarrow> int \<Rightarrow> 'a local_storage_scheme \<Rightarrow> 'a local_storage_scheme" where
  "storeEvent eventHash timestamp ls = storeMap ((loadMap ls)(eventHash \<mapsto> timestamp)) ls"

text \<open>
  \<^verbatim>\<open>
  function checkShouldLogEvent(event: any): boolean {
    const eventHash = hashEvent(event);
    const hashMap = loadMap();
    const currentTimestamp = Date.now();
    const previousTimestamp = hashMap.get(eventHash);
    let shouldBeLogged = true;
    if (previousTimestamp) {
      const timeDifference = currentTimestamp - previousTimestamp;
      if (timeDifference < MIN_TIME_DIFF_FOR_EVENT_LOG_MS) {
        shouldBeLogged = false;
      }
    }
    storeEvent(eventHash, currentTimestamp);
    return shouldBeLogged;
  }
  \<close>
  \<open>if (previousTimestamp)\<close> is a truthiness test: it fails when the key is absent
  (\<open>undefined\<close>) and also when the stored number is \<open>0\<close>.
\<close>

definition checkShouldLogEvent ::
  "('ev \<Rightarrow> utf16) \<Rightarrow> 'ev \<Rightarrow> int \<Rightarrow> 'a local_storage_scheme \<Rightarrow> bool \<times> 'a local_storage_scheme" where
  "checkShouldLogEvent JSON_stringify event Date_now ls =
     (let eventHash = hashEvent JSON_stringify event;
          hashMap = loadMap ls;
          currentTimestamp = Date_now;
          previousTimestamp = hashMap eventHash;
          shouldBeLogged =
            (case previousTimestamp of
               None \<Rightarrow> True
             | Some previous \<Rightarrow>
                 if previous \<noteq> 0
                 then (let timeDifference = currentTimestamp - previous
                       in if timeDifference < MIN_TIME_DIFF_FOR_EVENT_LOG_MS then False else True)
                 else True)
      in (shouldBeLogged, storeEvent eventHash currentTimestamp ls))"

text \<open>
  Every caller (\<open>logErrors\<close>, \<open>logUserLanded\<close>, \<open>logWalletConnect\<close>,
  \<open>logSendTransaction\<close>) guards its request to the backend in the same way:
  \<^verbatim>\<open>
  if (checkShouldLogEvent(eventData)) {
    const response = await gqlClient.request(Create...Event, { event: eventData });
    ...
  }
  \<close>
  The state is the storage together with the list of events sent to the backend so far.
\<close>

definition notifyIfShouldLog ::
  "('ev \<Rightarrow> utf16) \<Rightarrow> 'ev \<Rightarrow> int \<Rightarrow> 'a local_storage_scheme \<times> 'ev list \<Rightarrow> 'a local_storage_scheme \<times> 'ev list" where
  "notifyIfShouldLog JSON_stringify eventData Date_now st =
     (case checkShouldLogEvent JSON_stringify eventData Date_now (fst st) of
        (shouldBeLogged, ls') \<Rightarrow> (ls', if shouldBeLogged then snd st @ [eventData] else snd st))"

text \<open>Reading a decimal string back, to state that \<open>nat_toString\<close> writes decimal digits.\<close>

definition decimal_value :: "string \<Rightarrow> nat" where
  "decimal_value s = foldl (\<lambda>a c. 10 * a + (of_char c - 48)) 0 s"

section \<open>JavaScript values, errors and promises\<close>

text \<open>
  Values that come out of \<open>JSON.parse\<close> or out of a wallet provider are untyped in the
  source (\<open>any\<close>). They are modelled by the JSON value type, extended with
  \<open>undefined\<close>. Numbers are the integers (identifiers, codes and chain ids).
\<close>

datatype jsv =
    JUndefined
  | JNull
  | JBool bool
  | JNum int
  | JStr string
  | JArr "jsv list"
  | JObj "(string \<times> jsv) list"

text \<open>
  Exceptions are values. \<open>TypeError\<close> and \<open>SyntaxError\<close> are raised by the runtime
  (a property read on \<open>undefined\<close> or \<open>null\<close>, a call of something that is not a
  function, \<open>JSON.parse\<close> on malformed text); \<open>Error\<close> is any other error object with
  a message and no \<open>code\<close> property; \<open>ProviderRpcError\<close> is the error object of a
  wallet provider, with its numeric \<open>code\<close> and its message.
\<close>

datatype js_error =
    TypeError
  | SyntaxError
  | Error string
  | ProviderRpcError int string

text \<open>
  The state of a promise once the event loop has run: fulfilled with a value, rejected
  with an error, or never settled.
\<close>

datatype 'a promise = Fulfilled 'a | Rejected js_error | NeverSettles

text \<open>Sequencing of computations that may throw.\<close>

definition andThen :: "js_error + 'a \<Rightarrow> ('a \<Rightarrow> js_error + 'b) \<Rightarrow> js_error + 'b" where
  "andThen r f = (case r of Inl e \<Rightarrow> Inl e | Inr v \<Rightarrow> f v)"

fun truthy :: "jsv \<Rightarrow> bool" where
  "truthy JUndefined = False"
| "truthy JNull = False"
| "truthy (JBool b) = b"
| "truthy (JNum n) = (n \<noteq> 0)"
| "truthy (JStr s) = (s \<noteq> [])"
| "truthy (JArr xs) = True"
| "truthy (JObj kvs) = True"

text \<open>
  \<open>v.k\<close>: a TypeError on \<open>undefined\<close> and \<open>null\<close>; the member of an object; and
  \<open>undefined\<close> on a primitive or an array (none of the property names that the code
  reads is a builtin property of strings, numbers, booleans or arrays).
\<close>

fun getprop :: "jsv \<Rightarrow> string \<Rightarrow> js_error + jsv" where
  "getprop JUndefined k = Inl TypeError"
| "getprop JNull k = Inl TypeError"
| "getprop (JObj kvs) k = Inr (case map_of kvs k of None \<Rightarrow> JUndefined | Some v \<Rightarrow> v)"
| "getprop v k = Inr JUndefined"

text \<open>The same read where the source has already tested that the object is truthy.\<close>

definition prop_of :: "jsv \<Rightarrow> string \<Rightarrow> jsv" where
  "prop_of v k = (case getprop v k of Inl e \<Rightarrow> JUndefined | Inr x \<Rightarrow> x)"

text \<open>\<open>v[0]\<close>.\<close>

fun index0 :: "jsv \<Rightarrow> js_error + jsv" where
  "index0 JUndefined = Inl TypeError"
| "index0 JNull = Inl TypeError"
| "index0 (JArr xs) = Inr (case xs of [] \<Rightarrow> JUndefined | x # _ \<Rightarrow> x)"
| "index0 (JStr s) = Inr (case s of [] \<Rightarrow> JUndefined | c # _ \<Rightarrow> JStr [c])"
| "index0 (JObj kvs) = Inr (case map_of kvs ''0'' of None \<Rightarrow> JUndefined | Some v \<Rightarrow> v)"
| "index0 v = Inr JUndefined"

text \<open>
  \<open>a === b\<close>: equality of primitives; two arrays or objects are equal only when they are
  the same reference, which a freshly parsed value never is.
\<close>

fun is_primitive :: "jsv \<Rightarrow> bool" where
  "is_primitive (JArr xs) = False"
| "is_primitive (JObj kvs) = False"
| "is_primitive v = True"

definition strict_eq :: "jsv \<Rightarrow> jsv \<Rightarrow> bool" where
  "strict_eq a b = (is_primitive a \<and> a = b)"

text \<open>\<open>s.toLowerCase()\<close>; a TypeError when the receiver is not a string. The characters
  of a \<open>string\<close> are the code units below 256 (Latin-1). Among them the letters with
  a lower-case form are \<open>A\<close> to \<open>Z\<close> and the accented capitals U+00C0 to U+00DE
  without the multiplication sign U+00D7; each has its lower-case form 32 places up.\<close>

definition lower_char :: "char \<Rightarrow> char" where
  "lower_char c =
     (let n = of_char c :: nat
      in if (65 \<le> n \<and> n \<le> 90) \<or> (192 \<le> n \<and> n \<le> 222 \<and> n \<noteq> 215) then char_of (n + 32) else c)"

fun toLowerCase :: "jsv \<Rightarrow> js_error + string" where
  "toLowerCase (JStr s) = Inr (map lower_char s)"
| "toLowerCase v = Inl TypeError"

text \<open>\<open>s.includes(sub)\<close> and \<open>s.indexOf(sub) !== -1\<close> on strings: \<open>sub\<close> occurs in \<open>s\<close>.\<close>

fun includes_str :: "string \<Rightarrow> string \<Rightarrow> bool" where
  "includes_str [] sub = (sub = [])"
| "includes_str (c # cs) sub = (take (length sub) (c # cs) = sub \<or> includes_str cs sub)"

text \<open>\<open>v.includes(sub)\<close> on a truthy parsed value: the string method, the array method,
  and a TypeError on anything else (the value has no callable \<open>includes\<close>).\<close>

fun js_includes :: "jsv \<Rightarrow> string \<Rightarrow> js_error + bool" where
  "js_includes (JStr s) sub = Inr (includes_str s sub)"
| "js_includes (JArr xs) sub = Inr (JStr sub \<in> set xs)"
| "js_includes v sub = Inl TypeError"

section \<open>Transaction finality watcher\<close>

datatype TxStatus = PENDING | SUCCESS | FAILURE | CANCELLED

record TxReceipt =
  blockNumber :: jsv
  status :: TxStatus

text \<open>
  \<^verbatim>\<open>
  async function waitMined(eventData: any, provider: any,
    retries: number = 50, pollIntervalSeconds: number = 5): Promise<TxReceipt | null> {
    const txHash = eventData.tx.hash;
    let attempts = 0;
    while (attempts < retries) {
      const receipt = await provider.request({
        method: 'eth_getTransactionReceipt', params: [txHash] });
      if (receipt && receipt.blockNumber) {
        const status = receipt.status;
        return {
          blockNumber: receipt.blockNumber,
          status: status === '0x0' ? TxStatus.FAILURE : TxStatus.SUCCESS,
        };
      }
      await sleep(pollIntervalSeconds * 1000);
      attempts++;
    }
    return null;
  }
  \<close>
  The provider is the sequence of its answers: \<open>request n\<close> is what the lookup number
  \<open>n\<close> (counted from 0) resolves to, or the error it rejects with. The loop returns
  what the promise settles to, the number of lookups made and the milliseconds slept.
\<close>

record 'r watch_result =
  outcome :: "js_error + 'r"
  lookups :: nat
  slept_ms :: int

definition receipt_mined :: "jsv \<Rightarrow> bool" where
  "receipt_mined receipt = (truthy receipt \<and> truthy (prop_of receipt ''blockNumber''))"

definition receipt_of :: "jsv \<Rightarrow> TxReceipt" where
  "receipt_of receipt =
     \<lparr>blockNumber = prop_of receipt ''blockNumber'',
      status = (if strict_eq (prop_of receipt ''status'') (JStr ''0x0'') then FAILURE else SUCCESS)\<rparr>"

function waitMined_loop ::
  "(nat \<Rightarrow> js_error + jsv) \<Rightarrow> int \<Rightarrow> int \<Rightarrow> nat \<Rightarrow> int \<Rightarrow> TxReceipt option watch_result" where
  "waitMined_loop request retries pollIntervalSeconds attempts slept =
     (if int attempts < retries
      then (case request attempts of
              Inl err \<Rightarrow> \<lparr>outcome = Inl err, lookups = Suc attempts, slept_ms = slept\<rparr>
            | Inr receipt \<Rightarrow>
                if receipt_mined receipt
                then \<lparr>outcome = Inr (Some (receipt_of receipt)), lookups = Suc attempts, slept_ms = slept\<rparr>
                else waitMined_loop request retries pollIntervalSeconds (Suc attempts)
                       (slept + pollIntervalSeconds * 1000))
      else \<lparr>outcome = Inr None, lookups = attempts, slept_ms = slept\<rparr>)"
  by pat_completeness auto
termination
  by (relation "measure (\<lambda>(request, retries, pollIntervalSeconds, attempts, slept). nat (retries - int attempts))") auto

declare waitMined_loop.simps [simp del]

text \<open>An omitted argument (\<open>None\<close>) takes its default.\<close>

definition waitMined ::
  "(nat \<Rightarrow> js_error + jsv) \<Rightarrow> int option \<Rightarrow> int option \<Rightarrow> TxReceipt option watch_result" where
  "waitMined request retries pollIntervalSeconds =
     waitMined_loop request
       (case retries of None \<Rightarrow> 50 | Some r \<Rightarrow> r)
       (case pollIntervalSeconds of None \<Rightarrow> 5 | Some p \<Rightarrow> p)
       0 0"

section \<open>Wallet session stores\<close>

subsection \<open>\<open>fetchCbObject\<close>\<close>

text \<open>
  The six \<open>localStorage\<close> items of the Coinbase relay, each \<open>None\<close> when
  \<open>getItem\<close> returns \<open>null\<close>:
  \<open>-walletlink:https://www.walletlink.org:session:id\<close>, \<open>...:session:linked\<close>,
  \<open>...:DefaultChainId\<close>, \<open>...:DefaultJsonRpcUrl\<close>, \<open>...:session:secret\<close> and
  \<open>...:Addresses\<close>.
\<close>

record walletlink_items =
  session_id :: "string option"
  session_linked :: "string option"
  DefaultChainId :: "string option"
  DefaultJsonRpcUrl :: "string option"
  session_secret :: "string option"
  Addresses :: "string option"

record CbObject =
  sessionId :: string
  sessionSecret :: string
  addresses :: string
  linked :: string
  defaultChainId :: string
  defaultJsonRpcUrl :: string

text \<open>Truthiness of a \<open>string | null\<close>: present and not empty.\<close>

definition str_truthy :: "string option \<Rightarrow> bool" where
  "str_truthy v = (case v of None \<Rightarrow> False | Some s \<Rightarrow> s \<noteq> [])"

definition str_val :: "string option \<Rightarrow> string" where
  "str_val v = (case v of None \<Rightarrow> [] | Some s \<Rightarrow> s)"

text \<open>
  \<^verbatim>\<open>
  function fetchCbObject(newAddressesValue?: string) {
    const sessionId = localStorage.getItem('-walletlink:...:session:id');
    const linked = localStorage.getItem('-walletlink:...:session:linked');
    const defaultChainId = localStorage.getItem('-walletlink:...:DefaultChainId');
    const defaultJsonRpcUrl = localStorage.getItem('-walletlink:...:DefaultJsonRpcUrl');
    const sessionSecret = localStorage.getItem('-walletlink:...:session:secret');
    const addresses =
      newAddressesValue ?? localStorage.getItem('-walletlink:...:Addresses');
    if (sessionId && linked && linked === '1' && addresses && addresses.length > 0 &&
        sessionSecret && defaultChainId && defaultJsonRpcUrl) {
      cbObject = { sessionId, sessionSecret, linked, addresses,
                   defaultChainId, defaultJsonRpcUrl };
    } else {
      pfLog('PF >>> failed to fetch cb object. Cb: ', {...});
    }
  }
  \<close>
  \<open>cbObject\<close> is a module variable, \<open>null\<close> at start: the function takes its current
  value and returns the new one. The failing branch only logs.
\<close>

definition fetchCbObject ::
  "string option \<Rightarrow> walletlink_items \<Rightarrow> CbObject option \<Rightarrow> CbObject option" where
  "fetchCbObject newAddressesValue localStorage cbObject =
     (let sessionId = session_id localStorage;
          linked = session_linked localStorage;
          defaultChainId = DefaultChainId localStorage;
          defaultJsonRpcUrl = DefaultJsonRpcUrl localStorage;
          sessionSecret = session_secret localStorage;
          addresses = (case newAddressesValue of Some v \<Rightarrow> Some v | None \<Rightarrow> Addresses localStorage)
      in if str_truthy sessionId \<and> str_truthy linked \<and> linked = Some ''1'' \<and>
            str_truthy addresses \<and> length (str_val addresses) > 0 \<and>
            str_truthy sessionSecret \<and> str_truthy defaultChainId \<and> str_truthy defaultJsonRpcUrl
         then Some \<lparr>sessionId = str_val sessionId, sessionSecret = str_val sessionSecret,
                     addresses = str_val addresses, linked = str_val linked,
                     defaultChainId = str_val defaultChainId,
                     defaultJsonRpcUrl = str_val defaultJsonRpcUrl\<rparr>
         else cbObject)"

text \<open>The requirement in the words of the specification: every one of the six values
  is present and not empty, and the linked flag is the sentinel \<open>1\<close>.\<close>

definition present :: "string option \<Rightarrow> bool" where
  "present v = (v \<noteq> None \<and> v \<noteq> Some [])"

definition cb_required_present :: "string option \<Rightarrow> walletlink_items \<Rightarrow> bool" where
  "cb_required_present newAddressesValue localStorage =
     (present (session_id localStorage) \<and>
      session_linked localStorage = Some ''1'' \<and>
      present (case newAddressesValue of Some v \<Rightarrow> Some v | None \<Rightarrow> Addresses localStorage) \<and>
      present (session_secret localStorage) \<and>
      present (DefaultChainId localStorage) \<and>
      present (DefaultJsonRpcUrl localStorage))"

definition cb_complete :: "CbObject \<Rightarrow> bool" where
  "cb_complete cb =
     (sessionId cb \<noteq> [] \<and> linked cb = ''1'' \<and> addresses cb \<noteq> [] \<and> sessionSecret cb \<noteq> [] \<and>
      defaultChainId cb \<noteq> [] \<and> defaultJsonRpcUrl cb \<noteq> [])"

subsection \<open>\<open>getProviderNameForMetamask\<close>\<close>

text \<open>
  The injected provider, as far as the probes read it: the truthiness of each brand
  flag, the name of its constructor, and its \<open>host\<close> (\<open>None\<close> when the property is
  absent). The page has the provider under \<open>window.ethereum\<close> (\<open>None\<close> when it is
  \<open>undefined\<close>) and may define \<open>window.__CIPHER__\<close>. A \<open>ProviderName\<close> is one of the
  string literals of the source.
\<close>

record injected_provider =
  isTrust :: bool
  isGoWallet :: bool
  isAlphaWallet :: bool
  isStatus :: bool
  isCoinbaseWallet :: bool
  isRabby :: bool
  isFrame :: bool
  isMetaMask :: bool
  constructor_name :: string
  host :: "string option"

record window =
  ethereum :: "injected_provider option"
  CIPHER_defined :: bool

type_synonym ProviderName = string

text \<open>
  \<^verbatim>\<open>
  function getProviderNameForMetamask(): ProviderName {
    const fetchedProvider = (window as any).ethereum;
    if (fetchedProvider.isTrust) return 'trust';
    if (fetchedProvider.isGoWallet) return 'gowallet';
    if (fetchedProvider.isAlphaWallet) return 'alphawallet';
    if (fetchedProvider.isStatus) return 'status';
    if (fetchedProvider.isCoinbaseWallet) return 'coinbase';
    if (fetchedProvider.isRabby) return 'rabby';
    if (fetchedProvider.isFrame) return 'frame';
    if (typeof (window as any).__CIPHER__ !== 'undefined') return 'cipher';
    if (fetchedProvider.constructor.name === 'EthereumProvider') return 'mist';
    if (fetchedProvider.constructor.name === 'Web3FrameProvider') return 'parity';
    if (fetchedProvider.host && fetchedProvider.host.indexOf('infura') !== -1)
      return 'infura';
    if (fetchedProvider.host && fetchedProvider.host.indexOf('localhost') !== -1)
      return 'localhost';
    if (fetchedProvider.isMetaMask) return 'metamask';
    return 'unknown';
  }
  \<close>
\<close>

definition host_contains :: "injected_provider \<Rightarrow> string \<Rightarrow> bool" where
  "host_contains fetchedProvider sub =
     (str_truthy (host fetchedProvider) \<and> includes_str (str_val (host fetchedProvider)) sub)"

definition getProviderNameForMetamask :: "window \<Rightarrow> js_error + ProviderName" where
  "getProviderNameForMetamask w =
     (case ethereum w of
        None \<Rightarrow> Inl TypeError
      | Some fetchedProvider \<Rightarrow> Inr
         (if isTrust fetchedProvider then ''trust''
          else if isGoWallet fetchedProvider then ''gowallet''
          else if isAlphaWallet fetchedProvider then ''alphawallet''
          else if isStatus fetchedProvider then ''status''
          else if isCoinbaseWallet fetchedProvider then ''coinbase''
          else if isRabby fetchedProvider then ''rabby''
          else if isFrame fetchedProvider then ''frame''
          else if CIPHER_defined w then ''cipher''
          else if constructor_name fetchedProvider = ''EthereumProvider'' then ''mist''
          else if constructor_name fetchedProvider = ''Web3FrameProvider'' then ''parity''
          else if host_contains fetchedProvider ''infura'' then ''infura''
          else if host_contains fetchedProvider ''localhost'' then ''localhost''
          else if isMetaMask fetchedProvider then ''metamask''
          else ''unknown''))"

text \<open>
  The same detection as the ordered list of probes that the specification describes:
  each probe is a predicate with its label, and the first probe that matches wins.
\<close>

definition brand_probes :: "(((bool \<times> injected_provider) \<Rightarrow> bool) \<times> ProviderName) list" where
  "brand_probes =
     [(\<lambda>(c, p). isTrust p, ''trust''),
      (\<lambda>(c, p). isGoWallet p, ''gowallet''),
      (\<lambda>(c, p). isAlphaWallet p, ''alphawallet''),
      (\<lambda>(c, p). isStatus p, ''status''),
      (\<lambda>(c, p). isCoinbaseWallet p, ''coinbase''),
      (\<lambda>(c, p). isRabby p, ''rabby''),
      (\<lambda>(c, p). isFrame p, ''frame''),
      (\<lambda>(c, p). c, ''cipher''),
      (\<lambda>(c, p). constructor_name p = ''EthereumProvider'', ''mist''),
      (\<lambda>(c, p). constructor_name p = ''Web3FrameProvider'', ''parity''),
      (\<lambda>(c, p). host_contains p ''infura'', ''infura''),
      (\<lambda>(c, p). host_contains p ''localhost'', ''localhost''),
      (\<lambda>(c, p). isMetaMask p, ''metamask'')]"

fun first_match :: "(('a \<Rightarrow> bool) \<times> ProviderName) list \<Rightarrow> 'a \<Rightarrow> ProviderName" where
  "first_match [] x = ''unknown''"
| "first_match ((probe, label) # rest) x = (if probe x then label else first_match rest x)"

section \<open>Bridge cipher: \<open>aes256gcmDecrypt\<close>\<close>

text \<open>
  \<^verbatim>\<open>
  function hexStringToUint8Array(hexString: string): Uint8Array {
    return new Uint8Array(
      hexString.match(/.{1,2}/g)!.map((byte) => parseInt(byte, 16))
    );
  }
  \<close>
  The regular expression cuts the string, from the left, into pieces of two characters
  (one for a last single character); \<open>.\<close> does not match a line terminator, so a
  line terminator ends a piece and is skipped. \<open>match\<close> returns \<open>null\<close> when there
  is no piece at all, and \<open>null.map\<close> is a TypeError.
\<close>

definition line_terminator :: "char \<Rightarrow> bool" where
  "line_terminator c = (c = CHR 0x0A \<or> c = CHR 0x0D)"

fun match_1_2 :: "string \<Rightarrow> string list" where
  "match_1_2 [] = []"
| "match_1_2 [c] = (if line_terminator c then [] else [[c]])"
| "match_1_2 (c # d # rest) =
     (if line_terminator c then match_1_2 (d # rest)
      else if line_terminator d then [c] # match_1_2 rest
      else [c, d] # match_1_2 rest)"

text \<open>
  \<open>parseInt(byte, 16)\<close>: leading white space is skipped, then a sign, then a prefix
  \<open>0x\<close> or \<open>0X\<close>; the value is that of the longest run of hexadecimal digits that
  follows, and \<open>NaN\<close> (here \<open>None\<close>) when there is none. Storing the number into a
  \<open>Uint8Array\<close> keeps it modulo 256, and stores 0 for \<open>NaN\<close>.
\<close>

definition hex_digit :: "char \<Rightarrow> nat option" where
  "hex_digit c =
     (let n = of_char c :: nat
      in if 48 \<le> n \<and> n \<le> 57 then Some (n - 48)
         else if 97 \<le> n \<and> n \<le> 102 then Some (n - 87)
         else if 65 \<le> n \<and> n \<le> 70 then Some (n - 55)
         else None)"

definition white_space :: "char \<Rightarrow> bool" where
  "white_space c = (of_char c \<in> {9, 10, 11, 12, 13, 32, 160 :: nat})"

fun hex_digits_value :: "string \<Rightarrow> nat \<Rightarrow> nat" where
  "hex_digits_value [] acc = acc"
| "hex_digits_value (c # cs) acc =
     (case hex_digit c of None \<Rightarrow> acc | Some d \<Rightarrow> hex_digits_value cs (16 * acc + d))"

definition strip_sign :: "string \<Rightarrow> bool \<times> string" where
  "strip_sign s =
     (case s of
        [] \<Rightarrow> (False, [])
      | c # cs \<Rightarrow> if c = CHR ''-'' then (True, cs) else if c = CHR ''+'' then (False, cs) else (False, s))"

definition strip_0x :: "string \<Rightarrow> string" where
  "strip_0x s =
     (case s of
        c # d # rest \<Rightarrow> if c = CHR ''0'' \<and> (d = CHR ''x'' \<or> d = CHR ''X'') then rest else s
      | _ \<Rightarrow> s)"

definition parseInt16 :: "string \<Rightarrow> int option" where
  "parseInt16 s =
     (case strip_sign (dropWhile white_space s) of
        (negative, body) \<Rightarrow>
          (case strip_0x body of
             [] \<Rightarrow> None
           | c # cs \<Rightarrow>
               (case hex_digit c of
                  None \<Rightarrow> None
                | Some d \<Rightarrow>
                    let n = int (hex_digits_value (c # cs) 0)
                    in Some (if negative then - n else n))))"

definition ToUint8 :: "int option \<Rightarrow> 8 word" where
  "ToUint8 n = (case n of None \<Rightarrow> 0 | Some i \<Rightarrow> word_of_int i)"

definition hexStringToUint8Array :: "string \<Rightarrow> js_error + 8 word list" where
  "hexStringToUint8Array hexString =
     (case match_1_2 hexString of
        [] \<Rightarrow> Inl TypeError
      | pieces \<Rightarrow> Inr (map (\<lambda>byte. ToUint8 (parseInt16 byte)) pieces))"

text \<open>\<open>array.slice(begin, end)\<close> and \<open>array.slice(begin)\<close> for indices that are not negative.\<close>

definition slice :: "'a list \<Rightarrow> nat \<Rightarrow> nat \<Rightarrow> 'a list" where
  "slice xs b e = take (e - b) (drop b xs)"

definition slice_from :: "'a list \<Rightarrow> nat \<Rightarrow> 'a list" where
  "slice_from xs b = drop b xs"

text \<open>
  The Web Crypto API and the text decoder are the platform's: \<open>importKey\<close> (for a raw
  \<open>aes-gcm\<close> key), \<open>subtle.decrypt\<close> (called with the algorithm \<open>AES-GCM\<close>, the
  initialization vector, the key and the data) and \<open>TextDecoder.decode\<close> are parameters
  of the model. A key is modelled by what \<open>importKey\<close> returns for its raw bytes.
\<close>

record 'k web_crypto =
  importKey :: "8 word list \<Rightarrow> js_error + 'k"
  subtle_decrypt :: "8 word list \<Rightarrow> 'k \<Rightarrow> 8 word list \<Rightarrow> js_error + 8 word list"
  TextDecoder_decode :: "8 word list \<Rightarrow> string"

text \<open>A call either throws at once or returns its value.\<close>

datatype 'a call = Throws js_error | Returns 'a

text \<open>
  \<^verbatim>\<open>
  export function aes256gcmDecrypt(cipherText: string, secret: string): Promise<string> {
    if (secret.length !== 64) throw Error(`secret must be 256 bits`);
    return new Promise<string>((resolve, reject) => {
      void (async function () {
        const secretKey: CryptoKey = await crypto.subtle.importKey(
          'raw', hexStringToUint8Array(secret), { name: 'aes-gcm' }, false,
          ['encrypt', 'decrypt']);
        const encrypted: Uint8Array = hexStringToUint8Array(cipherText);
        const ivBytes = encrypted.slice(0, 12);
        const authTagBytes = encrypted.slice(12, 28);
        const encryptedPlaintextBytes = encrypted.slice(28);
        const concattedBytes = new Uint8Array([
          ...encryptedPlaintextBytes, ...authTagBytes ]);
        const algo = { name: 'AES-GCM', iv: new Uint8Array(ivBytes) };
        try {
          const decrypted = await window.crypto.subtle.decrypt(
            algo, secretKey, concattedBytes);
          const decoder = new TextDecoder();
          resolve(decoder.decode(decrypted));
        } catch (err) {
          reject(err);
        }
      })();
    });
  }
  \<close>
  The guard throws before any promise exists. An exception in the asynchronous body
  before its \<open>try\<close> (decoding the secret, importing the key, decoding the cipher text)
  rejects only the promise of the inner function, which nobody holds: the returned
  promise is then never settled.
\<close>

definition aes256gcmDecrypt :: "('k, 'z) web_crypto_scheme \<Rightarrow> string \<Rightarrow> string \<Rightarrow> string promise call" where
  "aes256gcmDecrypt crypto cipherText secret =
     (if length secret \<noteq> 64 then Throws (Error ''secret must be 256 bits'')
      else Returns
        (case hexStringToUint8Array secret of
           Inl err \<Rightarrow> NeverSettles
         | Inr rawKey \<Rightarrow>
             (case importKey crypto rawKey of
                Inl err \<Rightarrow> NeverSettles
              | Inr secretKey \<Rightarrow>
                  (case hexStringToUint8Array cipherText of
                     Inl err \<Rightarrow> NeverSettles
                   | Inr encrypted \<Rightarrow>
                       let ivBytes = slice encrypted 0 12;
                           authTagBytes = slice encrypted 12 28;
                           encryptedPlaintextBytes = slice_from encrypted 28;
                           concattedBytes = encryptedPlaintextBytes @ authTagBytes
                       in (case subtle_decrypt crypto ivBytes secretKey concattedBytes of
                             Inl err \<Rightarrow> Rejected err
                           | Inr decrypted \<Rightarrow> Fulfilled (TextDecoder_decode crypto decrypted))))))"


section \<open>Provider interceptor\<close>

text \<open>
  \<^verbatim>\<open>
  const proxiedFunctions = ['request'];
  const handler = {
    get(target: any, prop: any, receiver: any) {
      if (!proxiedFunctions.includes(prop)) {
        return Reflect.get(target, prop, receiver);
      }
      return async (...args: any) => { ... };
    },
  };
  \<close>
  A property key is a string or a symbol.
\<close>

datatype prop_key = PString string | PSymbol nat

definition proxiedFunctions :: "prop_key list" where
  "proxiedFunctions = [PString ''request'']"

text \<open>
  \<open>Reflect.get(target, prop, receiver)\<close> is the platform's ordinary property read
  (ECMAScript, OrdinaryGet): the property is looked up on the object and then along
  its prototype chain; a data property gives its value, an accessor property calls
  its getter with \<open>this\<close> bound to the receiver, and a property found nowhere gives
  \<open>undefined\<close>. An object is its own properties and its prototype. A value is a JSON
  value or a function (a method), named by \<open>'f\<close>. Two objects can be \<open>this\<close> here,
  the underlying provider and the wrapper around it, and a getter is what it returns
  or throws for each of them.
\<close>

datatype this_ref = ThisTarget | ThisProxy

datatype 'f prop_value = Val jsv | Fun 'f

datatype 'f property =
    DataProperty "'f prop_value"
  | AccessorProperty "this_ref \<Rightarrow> js_error + 'f prop_value"

datatype 'f js_object = JsObject "prop_key \<Rightarrow> 'f property option" "'f js_object option"

fun Reflect_get :: "'f js_object \<Rightarrow> prop_key \<Rightarrow> this_ref \<Rightarrow> js_error + 'f prop_value" where
  "Reflect_get (JsObject own proto) prop receiver =
     (case own prop of
        Some (DataProperty v) \<Rightarrow> Inr v
      | Some (AccessorProperty getter) \<Rightarrow> getter receiver
      | None \<Rightarrow>
          (case proto of
             None \<Rightarrow> Inr (Val JUndefined)
           | Some parent \<Rightarrow> Reflect_get parent prop receiver))"

text \<open>The \<open>get\<close> trap: what it returns (or throws) for a key that is passed through,
  or the wrapper function for \<open>request\<close>.\<close>

datatype 'f proxy_get = PassThrough "js_error + 'f prop_value" | RequestWrapper

definition handler_get :: "'f js_object \<Rightarrow> prop_key \<Rightarrow> this_ref \<Rightarrow> 'f proxy_get" where
  "handler_get target prop receiver =
     (if prop \<notin> set proxiedFunctions then PassThrough (Reflect_get target prop receiver)
      else RequestWrapper)"

text \<open>
  The page reads \<open>window.ethereum[prop]\<close> on the wrapper: the trap is called with the
  wrapper as receiver. Reading the same key on the underlying provider itself is the
  ordinary read with the provider as receiver.
\<close>

definition proxy_read :: "'f js_object \<Rightarrow> prop_key \<Rightarrow> 'f proxy_get" where
  "proxy_read target prop = handler_get target prop ThisProxy"

definition direct_read :: "'f js_object \<Rightarrow> prop_key \<Rightarrow> js_error + 'f prop_value" where
  "direct_read target prop = Reflect_get target prop ThisTarget"

text \<open>The property that a read finds, and the condition that the read does not depend
  on \<open>this\<close>: what it finds is no accessor, or an accessor whose getter does the same
  for the wrapper as for the provider.\<close>

fun lookup_property :: "'f js_object \<Rightarrow> prop_key \<Rightarrow> 'f property option" where
  "lookup_property (JsObject own proto) prop =
     (case own prop of
        Some p \<Rightarrow> Some p
      | None \<Rightarrow> (case proto of None \<Rightarrow> None | Some parent \<Rightarrow> lookup_property parent prop))"

definition this_independent :: "'f js_object \<Rightarrow> prop_key \<Rightarrow> bool" where
  "this_independent target prop =
     (case lookup_property target prop of
        Some (AccessorProperty getter) \<Rightarrow> getter ThisProxy = getter ThisTarget
      | _ \<Rightarrow> True)"

text \<open>
  The wallet descriptor handed to the event builders (\<open>WalletResponse\<close>, without its
  provider handle), and the two event builders that the interceptors call. Both are
  asynchronous functions with their own \<open>try\<close>/\<open>catch\<close>, called without \<open>await\<close>:
  a call is recorded, and nothing that happens inside it reaches the caller.
\<close>

record WalletResponse =
  wallet_type :: string
  wallet :: string
  walletProvider :: string

datatype log_call =
    LogWalletConnect WalletResponse
  | LogSendTransaction jsv TxStatus jsv WalletResponse

definition nth_arg :: "jsv list \<Rightarrow> nat \<Rightarrow> jsv" where
  "nth_arg args i = (if i < length args then args ! i else JUndefined)"

fun is_string :: "jsv \<Rightarrow> bool" where
  "is_string (JStr s) = True"
| "is_string v = False"

text \<open>
  \<^verbatim>\<open>
  const arg0IsMethodString = typeof args[0] === 'string';
  const method = arg0IsMethodString ? args[0] : args[0].method;
  const params = arg0IsMethodString ? args[1] : args[0].params;
  \<close>
\<close>

definition request_args :: "jsv list \<Rightarrow> js_error + (jsv \<times> jsv)" where
  "request_args args =
     (let arg0 = nth_arg args 0
      in if is_string arg0 then Inr (arg0, nth_arg args 1)
         else andThen (getprop arg0 ''method'') (\<lambda>method.
              andThen (getprop arg0 ''params'') (\<lambda>params. Inr (method, params))))"

text \<open>\<open>{ provider: window.ethereum, type: 'injected', wallet: ..., walletProvider:
  getProviderNameForMetamask() }\<close>, the wallet expression being evaluated first.\<close>

definition injected_wallet :: "window \<Rightarrow> js_error + string \<Rightarrow> js_error + WalletResponse" where
  "injected_wallet w walletExpr =
     andThen walletExpr (\<lambda>a.
     andThen (getProviderNameForMetamask w) (\<lambda>name.
       Inr \<lparr>wallet_type = ''injected'', wallet = a, walletProvider = name\<rparr>))"

text \<open>\<open>params[0].from.toLowerCase()\<close>.\<close>

definition tx_from_lower :: "jsv \<Rightarrow> js_error + string" where
  "tx_from_lower params =
     andThen (index0 params) (\<lambda>tx. andThen (getprop tx ''from'') toLowerCase)"

text \<open>
  \<^verbatim>\<open>
  try {
    const result = await Reflect.get(target, prop, receiver)(...args);
    if (method === 'eth_requestAccounts') {
      logWalletConnect({ provider: (window as any).ethereum, type: 'injected',
        wallet: result[0].toLowerCase(), walletProvider: getProviderNameForMetamask() });
    } else if (method === 'eth_sendTransaction') {
      logSendTransaction(params[0], TxStatus.PENDING, result, {
        provider: (window as any).ethereum, type: 'injected',
        wallet: params[0].from.toLowerCase(),
        walletProvider: getProviderNameForMetamask() });
    } else if (method === 'eth_sendSignedTransaction') {
      pfLog('PF >>> DETECTED SEND SIGNED TRANSACTION MESSAGE');
    }
    return result;
  }
  \<close>
  \<open>target_request args\<close> is what the awaited call of the underlying provider gives:
  the value it resolves to, or the error it throws or rejects with.
\<close>

definition try_block ::
  "window \<Rightarrow> (jsv list \<Rightarrow> js_error + jsv) \<Rightarrow> jsv list \<Rightarrow> jsv \<Rightarrow> jsv \<Rightarrow> js_error + (jsv \<times> log_call list)" where
  "try_block w target_request args method params =
     andThen (target_request args) (\<lambda>result.
       if strict_eq method (JStr ''eth_requestAccounts'')
       then andThen (injected_wallet w (andThen (index0 result) toLowerCase)) (\<lambda>wr.
              Inr (result, [LogWalletConnect wr]))
       else if strict_eq method (JStr ''eth_sendTransaction'')
       then andThen (index0 params) (\<lambda>tx.
            andThen (injected_wallet w (tx_from_lower params)) (\<lambda>wr.
              Inr (result, [LogSendTransaction tx PENDING result wr])))
       else Inr (result, []))"

text \<open>
  \<^verbatim>\<open>
  catch (err: any) {
    pfLog('PF >>> Error when sending transaction: ', err);
    if (err.code && err.code == 4001) {
      pfLog('PF >>> User rejected transaction!');
      logSendTransaction(params[0], TxStatus.CANCELLED, null, {
        provider: (window as any).ethereum, type: 'injected',
        wallet: params[0].from.toLowerCase(),
        walletProvider: getProviderNameForMetamask() });
    }
  }
  \<close>
  The block ends without a \<open>return\<close> or a \<open>throw\<close>: the asynchronous function then
  returns \<open>undefined\<close>. An exception raised inside the block itself rejects the promise.
\<close>

definition err_code :: "js_error \<Rightarrow> int option" where
  "err_code err = (case err of ProviderRpcError c m \<Rightarrow> Some c | _ \<Rightarrow> None)"

definition catch_block :: "window \<Rightarrow> jsv \<Rightarrow> js_error \<Rightarrow> jsv promise \<times> log_call list" where
  "catch_block w params err =
     (if (case err_code err of None \<Rightarrow> False | Some c \<Rightarrow> c \<noteq> 0 \<and> c = 4001)
      then (case andThen (index0 params) (\<lambda>tx.
                 andThen (injected_wallet w (tx_from_lower params)) (\<lambda>wr.
                   Inr [LogSendTransaction tx CANCELLED JNull wr])) of
              Inl e \<Rightarrow> (Rejected e, [])
            | Inr calls \<Rightarrow> (Fulfilled JUndefined, calls))
      else (Fulfilled JUndefined, []))"

text \<open>The asynchronous function that \<open>handler.get\<close> returns for \<open>request\<close>: the state of
  its promise and the event builders it has called.\<close>

definition request_wrapper ::
  "window \<Rightarrow> (jsv list \<Rightarrow> js_error + jsv) \<Rightarrow> jsv list \<Rightarrow> jsv promise \<times> log_call list" where
  "request_wrapper w target_request args =
     (case request_args args of
        Inl e \<Rightarrow> (Rejected e, [])
      | Inr (method, params) \<Rightarrow>
          (case try_block w target_request args method params of
             Inr (result, calls) \<Rightarrow> (Fulfilled result, calls)
           | Inl err \<Rightarrow> catch_block w params err))"

text \<open>A transparent wrapper, for comparison: what the caller of the underlying provider
  gets when nothing stands in between.\<close>

definition direct_call :: "(jsv list \<Rightarrow> js_error + jsv) \<Rightarrow> jsv list \<Rightarrow> jsv promise" where
  "direct_call target_request args =
     (case target_request args of Inl err \<Rightarrow> Rejected err | Inr result \<Rightarrow> Fulfilled result)"

section \<open>Transport interceptor\<close>

text \<open>
  The WalletConnect pairing object (\<open>WCObject\<close>, the fields that the interceptor
  reads), the module state (\<open>wsMessages\<close>, \<open>wcObject\<close>, \<open>cbObject\<close>) and the
  platform: \<open>JSON.parse\<close> (applied to any value, \<open>None\<close> when it throws a
  SyntaxError) and the chain \<open>hexToArray\<close>, \<open>isoCrypto.aesCbcDecrypt\<close>,
  \<open>arrayToUtf8\<close> of the WalletConnect libraries, which takes the session key, the
  frame's \<open>iv\<close> and \<open>data\<close> and gives the plain text or fails.
\<close>

record WCObject =
  wc_key :: string
  clientId :: string
  peerId :: string
  chainId :: int
  peerMeta_name :: string

record ws_state =
  wsMessages :: "jsv \<rightharpoonup> jsv"
  wcObject :: "WCObject option"
  cbObject :: "CbObject option"

record 'k platform = "'k web_crypto" +
  JSON_parse :: "jsv \<Rightarrow> jsv option"
  aesCbcDecrypt_utf8 :: "string \<Rightarrow> jsv \<Rightarrow> jsv \<Rightarrow> js_error + jsv"

text \<open>\<open>Map.has\<close>, \<open>Map.get\<close> and \<open>Map.set\<close>: keys are compared like \<open>===\<close>, so an
  entry under an array or an object is never found again.\<close>

definition Map_has :: "(jsv \<rightharpoonup> jsv) \<Rightarrow> jsv \<Rightarrow> bool" where
  "Map_has m k = (is_primitive k \<and> m k \<noteq> None)"

definition Map_get :: "(jsv \<rightharpoonup> jsv) \<Rightarrow> jsv \<Rightarrow> jsv" where
  "Map_get m k = (if is_primitive k then (case m k of None \<Rightarrow> JUndefined | Some v \<Rightarrow> v) else JUndefined)"

definition Map_set :: "(jsv \<rightharpoonup> jsv) \<Rightarrow> jsv \<Rightarrow> jsv \<Rightarrow> (jsv \<rightharpoonup> jsv)" where
  "Map_set m k v = (if is_primitive k then m(k \<mapsto> v) else m)"

text \<open>
  \<^verbatim>\<open>
  async function decrypt(payload: Payload, wcObject: WCObject): Promise<any> {
    const key = encoding.hexToArray(wcObject.key);
    const iv = encoding.hexToArray(payload.iv);
    const data = encoding.hexToArray(payload.data);
    const decrypted = await isoCrypto.aesCbcDecrypt(iv, key, data);
    const decryptedString = encoding.arrayToUtf8(decrypted);
    return JSON.parse(decryptedString);
  }
  \<close>
\<close>

definition decrypt :: "('k, 'z) platform_scheme \<Rightarrow> jsv \<Rightarrow> WCObject \<Rightarrow> js_error + jsv" where
  "decrypt env payload wc =
     andThen (aesCbcDecrypt_utf8 env (wc_key wc) (prop_of payload ''iv'') (prop_of payload ''data''))
       (\<lambda>decryptedString.
          case JSON_parse env decryptedString of None \<Rightarrow> Inl SyntaxError | Some v \<Rightarrow> Inr v)"

text \<open>\<open>aes256gcmDecrypt\<close> applied to a truthy value of a parsed frame: a value that is not
  a string passes the guard on the secret and then fails inside the asynchronous body
  (\<open>hexString.match\<close> is not a function).\<close>

definition aes256gcmDecrypt_value ::
  "('k, 'z) web_crypto_scheme \<Rightarrow> jsv \<Rightarrow> string \<Rightarrow> string promise call" where
  "aes256gcmDecrypt_value crypto v secret =
     (case v of
        JStr cipherText \<Rightarrow> aes256gcmDecrypt crypto cipherText secret
      | _ \<Rightarrow> if length secret \<noteq> 64 then Throws (Error ''secret must be 256 bits'')
             else Returns NeverSettles)"

subsection \<open>Inbound frames\<close>

record ws_result =
  settled :: "unit promise"
  log_calls :: "log_call list"
  state_after :: ws_state

definition completes :: "ws_state \<Rightarrow> ws_result" where
  "completes st = \<lparr>settled = Fulfilled (), log_calls = [], state_after = st\<rparr>"

definition rejects :: "js_error \<Rightarrow> ws_state \<Rightarrow> ws_result" where
  "rejects e st = \<lparr>settled = Rejected e, log_calls = [], state_after = st\<rparr>"

text \<open>\<open>logSendTransaction(txData, status, result, walletResult)\<close>, once the expressions of
  the wallet descriptor have been evaluated.\<close>

definition log_tx :: "ws_state \<Rightarrow> jsv \<Rightarrow> TxStatus \<Rightarrow> jsv \<Rightarrow> js_error + WalletResponse \<Rightarrow> ws_result" where
  "log_tx st txData txStatus result walletExpr =
     (case walletExpr of
        Inl e \<Rightarrow> rejects e st
      | Inr wr \<Rightarrow> \<lparr>settled = Fulfilled (), log_calls = [LogSendTransaction txData txStatus result wr],
                   state_after = st\<rparr>)"

text \<open>\<open>{ provider: await chainIdToWeb3Provider(wcObject.chainId), type: 'walletconnect',
  wallet: txData.from.toLowerCase(), walletProvider: wcObject.peerMeta.name.toLowerCase() }\<close>\<close>

definition wc_wallet :: "WCObject \<Rightarrow> jsv \<Rightarrow> js_error + WalletResponse" where
  "wc_wallet wc txData =
     andThen (andThen (getprop txData ''from'') toLowerCase) (\<lambda>a.
       Inr \<lparr>wallet_type = ''walletconnect'', wallet = a,
            walletProvider = map lower_char (peerMeta_name wc)\<rparr>)"

text \<open>\<open>{ provider: await chainIdToWeb3Provider(txData.chainId), type: 'coinbase',
  wallet: txData.from.toLowerCase(), walletProvider: 'coinbase' }\<close>, where
  \<open>chainIdToWeb3Provider\<close> begins with \<open>chainId.toString()\<close>.\<close>

definition cb_wallet :: "jsv \<Rightarrow> js_error + WalletResponse" where
  "cb_wallet txData =
     andThen (getprop txData ''chainId'') (\<lambda>c.
       if c = JUndefined \<or> c = JNull then Inl TypeError
       else andThen (andThen (getprop txData ''from'') toLowerCase) (\<lambda>a.
              Inr \<lparr>wallet_type = ''coinbase'', wallet = a, walletProvider = ''coinbase''\<rparr>))"

text \<open>
  The WalletConnect branch of the listener, after the frame has been decrypted:
  \<^verbatim>\<open>
  if (decrypted.id && wsMessages.has(decrypted.id)) {
    const txData = wsMessages.get(decrypted.id);
    if (decrypted.error) {
      if (decrypted.error.message && decrypted.error.message.includes('rejected')) {
        logSendTransaction(txData, TxStatus.CANCELLED, null, {...});
      }
    } else {
      const hash = decrypted.result;
      logSendTransaction(txData, TxStatus.PENDING, hash, {...});
    }
  } else { pfLog(...); }
  \<close>
\<close>

definition wc_response :: "ws_state \<Rightarrow> WCObject \<Rightarrow> jsv \<Rightarrow> ws_result" where
  "wc_response st wc decrypted =
     (case getprop decrypted ''id'' of
        Inl e \<Rightarrow> rejects e st
      | Inr ident \<Rightarrow>
          if truthy ident \<and> Map_has (wsMessages st) ident
          then (let txData = Map_get (wsMessages st) ident;
                    error = prop_of decrypted ''error''
                in if truthy error
                   then (let message = prop_of error ''message''
                         in if truthy message
                            then (case js_includes message ''rejected'' of
                                    Inl e \<Rightarrow> rejects e st
                                  | Inr rejected \<Rightarrow>
                                      if rejected
                                      then log_tx st txData CANCELLED JNull (wc_wallet wc txData)
                                      else completes st)
                            else completes st)
                   else log_tx st txData PENDING (prop_of decrypted ''result'') (wc_wallet wc txData))
          else completes st)"

text \<open>
  The Coinbase branch, after the frame has been decrypted and parsed:
  \<^verbatim>\<open>
  if (decrypted.id && wsMessages.has(decrypted.id)) {
    const txData = wsMessages.get(decrypted.id);
    if (decrypted.response.errorMessage) {
      if (decrypted.response.errorMessage.includes('rejected')) {
        logSendTransaction(txData, TxStatus.CANCELLED, null, {...});
      }
    } else {
      const hash = decrypted.response.result;
      logSendTransaction(txData, TxStatus.PENDING, hash, {...});
    }
  }
  \<close>
\<close>

definition cb_response :: "ws_state \<Rightarrow> jsv \<Rightarrow> ws_result" where
  "cb_response st decrypted =
     (case getprop decrypted ''id'' of
        Inl e \<Rightarrow> rejects e st
      | Inr ident \<Rightarrow>
          if truthy ident \<and> Map_has (wsMessages st) ident
          then (let txData = Map_get (wsMessages st) ident;
                    response = prop_of decrypted ''response''
                in case getprop response ''errorMessage'' of
                     Inl e \<Rightarrow> rejects e st
                   | Inr errorMessage \<Rightarrow>
                       if truthy errorMessage
                       then (case js_includes errorMessage ''rejected'' of
                               Inl e \<Rightarrow> rejects e st
                             | Inr rejected \<Rightarrow>
                                 if rejected
                                 then log_tx st txData CANCELLED JNull (cb_wallet txData)
                                 else completes st)
                       else log_tx st txData PENDING (prop_of response ''result'') (cb_wallet txData))
          else completes st)"

text \<open>
  The listener that \<open>initializeWsProxy\<close> registers on every socket:
  \<^verbatim>\<open>
  ws.addEventListener('message', async (e: any) => {
    const messageObj = JSON.parse(e.data);
    if (!messageObj) { pfLog('PF >>> Could not parse ws message. ...'); return; }
    if (messageObj.payload && messageObj.topic === wcObject?.clientId) {
      if (!wcObject) { pfLog(...); return; }
      const payload = JSON.parse(messageObj.payload);
      if (!payload) { pfLog(...); return; }
      const decrypted = await decrypt(payload, wcObject);
      ...
    } else if (messageObj.type === 'Event' && messageObj.event === 'Web3Response' &&
               messageObj.data) {
      if (!cbObject) { pfLog(...); return; }
      const decrypted = JSON.parse(
        await aes256gcmDecrypt(messageObj.data, cbObject.sessionSecret));
      ...
    } else { pfLog('PF >>> Message not recognized!'); }
  });
  \<close>
  The listener is an asynchronous function with no \<open>try\<close>: an exception anywhere in it
  rejects the promise it returns.
\<close>

definition onMessage :: "('k, 'z) platform_scheme \<Rightarrow> ws_state \<Rightarrow> jsv \<Rightarrow> ws_result" where
  "onMessage env st e_data =
     (case JSON_parse env e_data of
        None \<Rightarrow> rejects SyntaxError st
      | Some messageObj \<Rightarrow>
          if \<not> truthy messageObj then completes st
          else if truthy (prop_of messageObj ''payload'') \<and>
                  strict_eq (prop_of messageObj ''topic'')
                    (case wcObject st of None \<Rightarrow> JUndefined | Some wc \<Rightarrow> JStr (clientId wc))
          then (case wcObject st of
                  None \<Rightarrow> completes st
                | Some wc \<Rightarrow>
                    (case JSON_parse env (prop_of messageObj ''payload'') of
                       None \<Rightarrow> rejects SyntaxError st
                     | Some payload \<Rightarrow>
                         if \<not> truthy payload then completes st
                         else (case decrypt env payload wc of
                                 Inl e \<Rightarrow> rejects e st
                               | Inr decrypted \<Rightarrow> wc_response st wc decrypted)))
          else if strict_eq (prop_of messageObj ''type'') (JStr ''Event'') \<and>
                  strict_eq (prop_of messageObj ''event'') (JStr ''Web3Response'') \<and>
                  truthy (prop_of messageObj ''data'')
          then (case cbObject st of
                  None \<Rightarrow> completes st
                | Some cb \<Rightarrow>
                    (case aes256gcmDecrypt_value env (prop_of messageObj ''data'') (sessionSecret cb) of
                       Throws e \<Rightarrow> rejects e st
                     | Returns NeverSettles \<Rightarrow>
                         \<lparr>settled = NeverSettles, log_calls = [], state_after = st\<rparr>
                     | Returns (Rejected e) \<Rightarrow> rejects e st
                     | Returns (Fulfilled decryptedString) \<Rightarrow>
                         (case JSON_parse env (JStr decryptedString) of
                            None \<Rightarrow> rejects SyntaxError st
                          | Some decrypted \<Rightarrow> cb_response st decrypted)))
          else completes st)"

text \<open>Two frames one after the other, each handled to completion.\<close>

definition onMessage_twice :: "('k, 'z) platform_scheme \<Rightarrow> ws_state \<Rightarrow> jsv \<Rightarrow> jsv \<Rightarrow> ws_result \<times> ws_result" where
  "onMessage_twice env st first_data second_data =
     (let first = onMessage env st first_data
      in (first, onMessage env (state_after first) second_data))"

subsection \<open>Outbound frames\<close>

text \<open>
  \<open>originalSend args\<close> is what the socket's own \<open>send\<close> does with the arguments: the
  value it returns or the exception it throws. The result of \<open>proxiedSend\<close> is what
  the caller gets, the argument lists that were handed to \<open>originalSend\<close> (in order),
  the state of the promise chain that the call left behind, and the module state once
  that chain has run.
\<close>

record send_result =
  returned :: "js_error + jsv"
  forwarded :: "jsv list list"
  deferred :: "unit promise"
  state_after_send :: ws_state

text \<open>\<open>return originalSend.apply(this, arguments)\<close> inside the \<open>try\<close>.\<close>

definition forward :: "(jsv list \<Rightarrow> js_error + jsv) \<Rightarrow> jsv list \<Rightarrow> unit promise \<Rightarrow> ws_state \<Rightarrow> send_result" where
  "forward originalSend arguments chain st =
     \<lparr>returned = originalSend arguments, forwarded = [arguments], deferred = chain,
      state_after_send = st\<rparr>"

text \<open>An exception inside the \<open>try\<close>, before anything was forwarded.\<close>

definition thrown :: "js_error \<Rightarrow> ws_state \<Rightarrow> send_result" where
  "thrown e st = \<lparr>returned = Inl e, forwarded = [], deferred = Fulfilled (), state_after_send = st\<rparr>"

text \<open>
  \<^verbatim>\<open>
  decrypt(payload, wcObject).then((decrypted) => {
    if (decrypted.id && decrypted.method && decrypted.method === 'eth_sendTransaction') {
      const params = decrypted.params[0];
      wsMessages.set(decrypted.id, params);
    } else { pfLog(...); }
  });
  \<close>
\<close>

definition wc_request_then :: "ws_state \<Rightarrow> jsv \<Rightarrow> unit promise \<times> ws_state" where
  "wc_request_then st decrypted =
     (case getprop decrypted ''id'' of
        Inl e \<Rightarrow> (Rejected e, st)
      | Inr ident \<Rightarrow>
          if truthy ident \<and> truthy (prop_of decrypted ''method'') \<and>
             strict_eq (prop_of decrypted ''method'') (JStr ''eth_sendTransaction'')
          then (case andThen (getprop decrypted ''params'') index0 of
                  Inl e \<Rightarrow> (Rejected e, st)
                | Inr params \<Rightarrow>
                    (Fulfilled (), st\<lparr>wsMessages := Map_set (wsMessages st) ident params\<rparr>))
          else (Fulfilled (), st))"

text \<open>
  \<^verbatim>\<open>
  aes256gcmDecrypt(messageObj.data, cbObject.sessionSecret).then((decryptedString) => {
    const decrypted = JSON.parse(decryptedString);
    if (decrypted.id && decrypted.type === 'WEB3_REQUEST') {
      const requestObj = decrypted.request;
      if (requestObj && requestObj.method === 'signEthereumTransaction') {
        const params = requestObj.params;
        if (params.shouldSubmit) {
          wsMessages.set(decrypted.id, {
            from: params.fromAddress, to: params.toAddress, data: params.data,
            value: params.weiValue, chainId: params.chainId });
        }
      }
    } else { pfLog(...); }
  });
  \<close>
\<close>

definition cb_request_then :: "ws_state \<Rightarrow> jsv \<Rightarrow> unit promise \<times> ws_state" where
  "cb_request_then st decrypted =
     (case getprop decrypted ''id'' of
        Inl e \<Rightarrow> (Rejected e, st)
      | Inr ident \<Rightarrow>
          if truthy ident \<and> strict_eq (prop_of decrypted ''type'') (JStr ''WEB3_REQUEST'')
          then (let requestObj = prop_of decrypted ''request''
                in if truthy requestObj \<and>
                      strict_eq (prop_of requestObj ''method'') (JStr ''signEthereumTransaction'')
                   then (let params = prop_of requestObj ''params''
                         in case getprop params ''shouldSubmit'' of
                              Inl e \<Rightarrow> (Rejected e, st)
                            | Inr shouldSubmit \<Rightarrow>
                                if truthy shouldSubmit
                                then (Fulfilled (),
                                      st\<lparr>wsMessages := Map_set (wsMessages st) ident
                                           (JObj [(''from'', prop_of params ''fromAddress''),
                                                  (''to'', prop_of params ''toAddress''),
                                                  (''data'', prop_of params ''data''),
                                                  (''value'', prop_of params ''weiValue''),
                                                  (''chainId'', prop_of params ''chainId'')])\<rparr>)
                                else (Fulfilled (), st))
                   else (Fulfilled (), st))
          else (Fulfilled (), st))"

text \<open>
  The body of the \<open>try\<close> in \<open>proxiedSend\<close>:
  \<^verbatim>\<open>
  const messageObj = JSON.parse(arguments[0]);
  if (!messageObj) { pfLog(...); return originalSend.apply(this, arguments); }
  if (messageObj.payload && messageObj.topic === wcObject?.peerId) {
    if (!wcObject) { pfLog(...); return originalSend.apply(this, arguments); }
    const payload = JSON.parse(messageObj.payload);
    if (!payload) { pfLog(...); return originalSend.apply(this, arguments); }
    decrypt(payload, wcObject).then(...);
  } else if (messageObj.type === 'PublishEvent' && messageObj.event === 'Web3Request' &&
             messageObj.data) {
    if (!cbObject) { pfLog(...); return originalSend.apply(this, arguments); }
    aes256gcmDecrypt(messageObj.data, cbObject.sessionSecret).then(...);
  } else { pfLog('PF >>> Message is not a walletconnect message'); }
  return originalSend.apply(this, arguments);
  \<close>
  \<open>decrypt\<close> is asynchronous, so its failures stay in the promise chain;
  \<open>aes256gcmDecrypt\<close> can also throw at the call.
\<close>

definition proxiedSend_try ::
  "('k, 'z) platform_scheme \<Rightarrow> (jsv list \<Rightarrow> js_error + jsv) \<Rightarrow> ws_state \<Rightarrow> jsv list \<Rightarrow> send_result" where
  "proxiedSend_try env originalSend st arguments =
     (case JSON_parse env (nth_arg arguments 0) of
        None \<Rightarrow> thrown SyntaxError st
      | Some messageObj \<Rightarrow>
          if \<not> truthy messageObj then forward originalSend arguments (Fulfilled ()) st
          else if truthy (prop_of messageObj ''payload'') \<and>
                  strict_eq (prop_of messageObj ''topic'')
                    (case wcObject st of None \<Rightarrow> JUndefined | Some wc \<Rightarrow> JStr (peerId wc))
          then (case wcObject st of
                  None \<Rightarrow> forward originalSend arguments (Fulfilled ()) st
                | Some wc \<Rightarrow>
                    (case JSON_parse env (prop_of messageObj ''payload'') of
                       None \<Rightarrow> thrown SyntaxError st
                     | Some payload \<Rightarrow>
                         if \<not> truthy payload then forward originalSend arguments (Fulfilled ()) st
                         else (case decrypt env payload wc of
                                 Inl e \<Rightarrow> forward originalSend arguments (Rejected e) st
                               | Inr decrypted \<Rightarrow>
                                   (case wc_request_then st decrypted of
                                      (chain, st') \<Rightarrow> forward originalSend arguments chain st'))))
          else if strict_eq (prop_of messageObj ''type'') (JStr ''PublishEvent'') \<and>
                  strict_eq (prop_of messageObj ''event'') (JStr ''Web3Request'') \<and>
                  truthy (prop_of messageObj ''data'')
          then (case cbObject st of
                  None \<Rightarrow> forward originalSend arguments (Fulfilled ()) st
                | Some cb \<Rightarrow>
                    (case aes256gcmDecrypt_value env (prop_of messageObj ''data'') (sessionSecret cb) of
                       Throws e \<Rightarrow> thrown e st
                     | Returns NeverSettles \<Rightarrow> forward originalSend arguments NeverSettles st
                     | Returns (Rejected e) \<Rightarrow> forward originalSend arguments (Rejected e) st
                     | Returns (Fulfilled decryptedString) \<Rightarrow>
                         (case JSON_parse env (JStr decryptedString) of
                            None \<Rightarrow> forward originalSend arguments (Rejected SyntaxError) st
                          | Some decrypted \<Rightarrow>
                              (case cb_request_then st decrypted of
                                 (chain, st') \<Rightarrow> forward originalSend arguments chain st'))))
          else forward originalSend arguments (Fulfilled ()) st)"

text \<open>
  \<^verbatim>\<open>
  const proxiedSend = function () {
    try {
      ...
      return originalSend.apply(this, arguments);
    } catch (error) {
      pfLog('PF >>> Error handling websocked connection: ', error);
      return originalSend.apply(this, arguments);
    }
  };
  \<close>
  The \<open>catch\<close> takes every exception of the body, that of a forwarding
  \<open>originalSend\<close> included, and forwards (again).
\<close>

definition proxiedSend ::
  "('k, 'z) platform_scheme \<Rightarrow> (jsv list \<Rightarrow> js_error + jsv) \<Rightarrow> ws_state \<Rightarrow> jsv list \<Rightarrow> send_result" where
  "proxiedSend env originalSend st arguments =
     (let body = proxiedSend_try env originalSend st arguments
      in case returned body of
           Inr v \<Rightarrow> body
         | Inl error \<Rightarrow>
             body\<lparr>returned := originalSend arguments, forwarded := forwarded body @ [arguments]\<rparr>)"

text \<open>What the body of the \<open>try\<close> can leave behind: an exception with nothing forwarded,
  or one forwarding whose result (value or exception) is the result of the body.\<close>

definition try_outcome :: "(jsv list \<Rightarrow> js_error + jsv) \<Rightarrow> jsv list \<Rightarrow> send_result \<Rightarrow> bool" where
  "try_outcome originalSend arguments r =
     ((forwarded r = [] \<and> (\<exists>e. returned r = Inl e)) \<or>
      (forwarded r = [arguments] \<and> returned r = originalSend arguments))"

section \<open>An earlier revision of the brand detection\<close>

text \<open>
  The repository also holds an earlier revision of \<open>getProviderNameForMetamask\<close>
  (in \<open>src/core/middleware/provider.ts\<close>), which probes \<open>isMetaMask\<close> first and knows
  neither Rabby nor Frame:
  \<^verbatim>\<open>
  function getProviderNameForMetamask(): ProviderName {
    const fetchedProvider = (window as any).ethereum;
    if (fetchedProvider.isMetaMask) return 'metamask';
    if (fetchedProvider.isTrust) return 'trust';
    if (fetchedProvider.isGoWallet) return 'gowallet';
    if (fetchedProvider.isAlphaWallet) return 'alphawallet';
    if (fetchedProvider.isStatus) return 'status';
    if (fetchedProvider.isToshi) return 'coinbase';
    if (typeof (window as any).__CIPHER__ !== 'undefined') return 'cipher';
    if (fetchedProvider.constructor.name === 'EthereumProvider') return 'mist';
    if (fetchedProvider.constructor.name === 'Web3FrameProvider') return 'parity';
    if (fetchedProvider.host && fetchedProvider.host.indexOf('infura') !== -1) return 'infura';
    if (fetchedProvider.host && fetchedProvider.host.indexOf('localhost') !== -1) return 'localhost';
    return 'unknown';
  }
  \<close>
  The revision modelled above replaced it.
\<close>

definition getProviderNameForMetamask_earlier :: "bool \<Rightarrow> window \<Rightarrow> js_error + ProviderName" where
  "getProviderNameForMetamask_earlier isToshi w =
     (case ethereum w of
        None \<Rightarrow> Inl TypeError
      | Some fetchedProvider \<Rightarrow> Inr
         (if isMetaMask fetchedProvider then ''metamask''
          else if isTrust fetchedProvider then ''trust''
          else if isGoWallet fetchedProvider then ''gowallet''
          else if isAlphaWallet fetchedProvider then ''alphawallet''
          else if isStatus fetchedProvider then ''status''
          else if isToshi then ''coinbase''
          else if CIPHER_defined w then ''cipher''
          else if constructor_name fetchedProvider = ''EthereumProvider'' then ''mist''
          else if constructor_name fetchedProvider = ''Web3FrameProvider'' then ''parity''
          else if host_contains fetchedProvider ''infura'' then ''infura''
          else if host_contains fetchedProvider ''localhost'' then ''localhost''
          else ''unknown''))"

section \<open>Sample inputs\<close>

text \<open>
  Concrete inputs on which the model is run. The answers of a provider that has the
  receipt at the third lookup; the storage items of a linked Coinbase session; an
  injected provider that sets its own flag and the compatibility flag \<open>isMetaMask\<close>.
\<close>

definition mined_at_third :: "nat \<Rightarrow> js_error + jsv" where
  "mined_at_third i =
     (if i < 2 then Inr JNull
      else Inr (JObj [(''blockNumber'', JStr ''0x10''), (''status'', JStr ''0x0'')]))"

definition full_items :: walletlink_items where
  "full_items = \<lparr>session_id = Some ''a1b2'', session_linked = Some ''1'',
     DefaultChainId = Some ''1'', DefaultJsonRpcUrl = Some ''https://rpc.example'',
     session_secret = Some ''5ec2e7'', Addresses = Some ''0xabc''\<rparr>"

definition trust_flags :: injected_provider where
  "trust_flags =
     \<lparr>isTrust = True, isGoWallet = False, isAlphaWallet = False, isStatus = False,
      isCoinbaseWallet = False, isRabby = False, isFrame = False, isMetaMask = True,
      constructor_name = ''Object'', host = None\<rparr>"

definition sample_window :: window where
  "sample_window = \<lparr>ethereum = Some trust_flags, CIPHER_defined = False\<rparr>"

text \<open>
  A stand-in for the platform's cryptography, to run the model: a raw key is kept as
  its bytes when it has 16, 24 or 32 of them (the key sizes of AES, which are the raw
  keys that \<open>importKey\<close> accepts for \<open>aes-gcm\<close>), the stand-in for decryption cuts the 16 bytes of the tag off the
  end of the data, and the decoder reads bytes as characters. It is not AES; the
  theorems about \<open>aes256gcmDecrypt\<close> hold for every platform.
\<close>

definition toy_crypto :: "8 word list web_crypto" where
  "toy_crypto =
     \<lparr>importKey = (\<lambda>raw. if length raw \<in> {16, 24, 32} then Inr raw else Inl (Error ''DataError'')),
      subtle_decrypt = (\<lambda>iv key data.
         if length data < 16 then Inl (Error ''OperationError'')
         else Inr (take (length data - 16) data)),
      TextDecoder_decode = map (\<lambda>b. char_of (unat b))\<rparr>"




text \<open>
  JSON texts are written by \<open>json_text\<close>, so that a sample frame is the text of the
  value it stands for (\<open>undefined\<close> is written \<open>null\<close>, as inside an array).
\<close>

definition json_quote :: "string \<Rightarrow> string" where
  "json_quote s =
     CHR 0x22 # concat (map (\<lambda>c. if c = CHR 0x22 \<or> c = CHR 0x5C then [CHR 0x5C, c] else [c]) s) @ [CHR 0x22]"

fun join_commas :: "string list \<Rightarrow> string" where
  "join_commas [] = []"
| "join_commas [x] = x"
| "join_commas (x # y # rest) = x @ '','' @ join_commas (y # rest)"

fun json_text :: "jsv \<Rightarrow> string" where
  "json_text JUndefined = ''null''"
| "json_text JNull = ''null''"
| "json_text (JBool b) = (if b then ''true'' else ''false'')"
| "json_text (JNum n) = int_toString n"
| "json_text (JStr s) = json_quote s"
| "json_text (JArr xs) = ''['' @ join_commas (map json_text xs) @ '']''"
| "json_text (JObj kvs) =
     ''{'' @ join_commas (map (\<lambda>kv. json_quote (fst kv) @ '':'' @ json_text (snd kv)) kvs) @ ''}''"

text \<open>
  A WalletConnect session, the parameters of a transaction that was sent through the
  bridge under the message id 7, and the frame with which the wallet answers: the
  envelope carries the topic of the session's client and, as a JSON string, the
  encrypted payload, which decrypts to the JSON-RPC response with the same id 7.
\<close>

definition sample_wc :: WCObject where
  "sample_wc = \<lparr>wc_key = ''00ff'', clientId = ''client-1'', peerId = ''peer-1'', chainId = 1,
                peerMeta_name = ''Rainbow''\<rparr>"

definition sample_tx :: jsv where
  "sample_tx = JObj [(''from'', JStr ''0xAbC''), (''to'', JStr ''0xdef''), (''data'', JStr ''0x''),
                     (''value'', JStr ''0x1'')]"

definition wc_response_body :: jsv where
  "wc_response_body = JObj [(''id'', JNum 7), (''jsonrpc'', JStr ''2.0''), (''result'', JStr ''0xhash'')]"

definition wc_payload :: jsv where
  "wc_payload = JObj [(''data'', JStr ''c1ff''), (''hmac'', JStr ''aa''), (''iv'', JStr ''1f'')]"

definition wc_frame :: jsv where
  "wc_frame = JObj [(''topic'', JStr ''client-1''), (''type'', JStr ''pub''),
                    (''payload'', JStr (json_text wc_payload))]"

text \<open>
  The sample platform: \<open>JSON.parse\<close> on the three texts above gives the values they
  are the texts of, and fails on any other text of the examples (\<open>ping\<close> is not JSON); the
  WalletConnect cipher is a table with the one encrypted payload.
\<close>

definition sample_platform :: "8 word list platform" where
  "sample_platform =
     \<lparr>importKey = importKey toy_crypto,
      subtle_decrypt = subtle_decrypt toy_crypto,
      TextDecoder_decode = TextDecoder_decode toy_crypto,
      JSON_parse = (\<lambda>x.
         if x = JStr (json_text wc_frame) then Some wc_frame
         else if x = JStr (json_text wc_payload) then Some wc_payload
         else if x = JStr (json_text wc_response_body) then Some wc_response_body
         else None),
      aesCbcDecrypt_utf8 = (\<lambda>key iv data.
         if key = ''00ff'' \<and> iv = JStr ''1f'' \<and> data = JStr ''c1ff''
         then Inr (JStr (json_text wc_response_body))
         else Inl (Error ''decrypt failed''))\<rparr>"

definition pending_state :: ws_state where
  "pending_state = \<lparr>wsMessages = [JNum 7 \<mapsto> sample_tx], wcObject = Some sample_wc, cbObject = None\<rparr>"

definition sample_call :: log_call where
  "sample_call = LogSendTransaction sample_tx PENDING (JStr ''0xhash'')
     \<lparr>wallet_type = ''walletconnect'', wallet = ''0xabc'', walletProvider = ''rainbow''\<rparr>"

text \<open>
  Two providers as objects. The first has the data property \<open>isMetaMask\<close> and
  inherits the method \<open>on\<close>. The second is an instance of a class that keeps the chain
  id in a private field and exposes it by a getter on the prototype,
  \<open>get chainId() { return this.#chainId; }\<close>: reading a private field of an object
  that does not have it is a TypeError.
\<close>

definition plain_provider :: "string js_object" where
  "plain_provider =
     JsObject (\<lambda>k. if k = PString ''isMetaMask'' then Some (DataProperty (Val (JBool True))) else None)
       (Some (JsObject (\<lambda>k. if k = PString ''on'' then Some (DataProperty (Fun ''on'')) else None) None))"

definition private_field_provider :: "string js_object" where
  "private_field_provider =
     JsObject (\<lambda>k. None)
       (Some (JsObject
          (\<lambda>k. if k = PString ''chainId''
                then Some (AccessorProperty
                             (\<lambda>this. if this = ThisTarget then Inr (Val (JStr ''0x1'')) else Inl TypeError))
                else None)
          None))"

text \<open>A call \<open>ethereum.request({ method: 'eth_sendTransaction', params: [tx] })\<close>, and two
  providers that fail it.\<close>

definition send_request :: "jsv list" where
  "send_request = [JObj [(''method'', JStr ''eth_sendTransaction''), (''params'', JArr [sample_tx])]]"

definition failing_provider :: "jsv list \<Rightarrow> js_error + jsv" where
  "failing_provider args = Inl (ProviderRpcError (- 32000) ''insufficient funds'')"

definition rejecting_user :: "jsv list \<Rightarrow> js_error + jsv" where
  "rejecting_user args = Inl (ProviderRpcError 4001 ''User rejected the request.'')"

section \<open>Properties of the event hash\<close>

lemma ToInt32_sint: "ToInt32 n = sint (word_of_int n :: 32 word)"
  by (simp add: ToInt32_def sint_sbintrunc' signed_take_bit_eq_take_bit_shift take_bit_eq_mod)

lemma shl5_sint: "shl5 (sint (w :: 32 word)) = sint (push_bit 5 w)"
  by (simp add: shl5_def ToInt32_sint push_bit_eq_mult)

lemma hash_step_sint:
  "ToInt32 (shl5 (sint (w :: 32 word)) - sint w + uint (c :: 16 word)) = sint (hash_step w c)"
proof -
  have "(word_of_int (shl5 (sint w) - sint w + uint c) :: 32 word) = push_bit 5 w - w + ucast c"
    by (simp add: shl5_sint word_of_int_uint)
  thus ?thesis by (simp add: ToInt32_sint hash_step_def)
qed

lemma hashLoop_sint: "hashLoop data (sint (w :: 32 word)) = sint (foldl hash_step w data)"
  by (induction data arbitrary: w) (simp_all add: hash_step_sint)

text \<open>\<open>nat_toString\<close> writes the decimal digits of its argument.\<close>

lemma digit_char_val: "d < 10 \<Longrightarrow> of_char (digit_char d) = (48 + d :: nat)"
  by (simp add: digit_char_def)

lemma decimal_value_snoc: "decimal_value (s @ [c]) = 10 * decimal_value s + (of_char c - 48)"
  by (simp add: decimal_value_def)

lemma nat_toString_roundtrip: "decimal_value (nat_toString n) = n"
proof (induction n rule: nat_toString.induct)
  case (1 n)
  show ?case
  proof (cases "n < 10")
    case True
    then show ?thesis
      by (subst nat_toString.simps) (simp add: digit_char_val decimal_value_def)
  next
    case False
    then have "decimal_value (nat_toString (n div 10)) = n div 10" using 1 by simp
    with False show ?thesis
      by (subst nat_toString.simps) (simp add: digit_char_val decimal_value_snoc)
  qed
qed

lemma hashEvent_example: "hashEvent (\<lambda>x. x) [97, 98, 99] = ''96354''"
  by (simp add: hashEvent_def ToInt32_def shl5_def int_toString_def nat_toString.simps
      digit_char_def char_of_def bit_0)

text \<open>
  Claim C10. \<open>hashEvent\<close> is a function of the serialization of the event alone: its
  result is the decimal string of the 32-bit signed integer that the fold
  \<open>hash = (hash << 5) - hash + charCode\<close>, started at 0 and taken over the code units
  of \<open>JSON.stringify(event)\<close> in 32-bit arithmetic, ends with; and two events with the
  same serialization have the same hash string.
\<close>

theorem hashEvent_int32_fold:
  "hashEvent js e = int_toString (sint (hash_fold (js e))) \<and>
   - (2 ^ 31) \<le> sint (hash_fold (js e)) \<and> sint (hash_fold (js e)) < 2 ^ 31 \<and>
   (js e' = js e \<longrightarrow> hashEvent js e' = hashEvent js e)"
proof -
  have "hashLoop (js e) (sint (0 :: 32 word)) = sint (foldl hash_step 0 (js e))"
    by (rule hashLoop_sint)
  then have "hashEvent js e = int_toString (sint (hash_fold (js e)))"
    by (simp add: hashEvent_def hash_fold_def)
  moreover have "- (2 ^ 31) \<le> sint (hash_fold (js e))"
    using sint_ge [of "hash_fold (js e)"] by simp
  moreover have "sint (hash_fold (js e)) < 2 ^ 31"
    using sint_lt [of "hash_fold (js e)"] by simp
  moreover have "js e' = js e \<longrightarrow> hashEvent js e' = hashEvent js e"
    by (simp add: hashEvent_def)
  ultimately show ?thesis by blast
qed

theorem hashEvent_int32_fold_witness:
  "(\<lambda>b :: bool. [97, 98, 99 :: 16 word]) False = (\<lambda>b. [97, 98, 99]) True \<and>
   hashEvent (\<lambda>b :: bool. [97, 98, 99]) False = hashEvent (\<lambda>b. [97, 98, 99]) True \<and>
   hashEvent (\<lambda>b :: bool. [97, 98, 99]) True = int_toString (sint (hash_fold [97, 98, 99]))"
  using hashEvent_int32_fold [of "\<lambda>b :: bool. [97, 98, 99]" True False] by blast

section \<open>Properties of the deduplication check\<close>

lemma check_result:
  "fst (checkShouldLogEvent js e now ls) = False \<longleftrightarrow>
     (\<exists>p. loadMap ls (hashEvent js e) = Some p \<and> p \<noteq> 0 \<and> now - p < 1000)"
  by (auto simp: checkShouldLogEvent_def Let_def MIN_TIME_DIFF_FOR_EVENT_LOG_MS_def
      split: option.splits)

lemma check_store:
  "loadMap (snd (checkShouldLogEvent js e now ls)) = (loadMap ls)(hashEvent js e \<mapsto> now)"
  by (simp add: checkShouldLogEvent_def Let_def storeEvent_def storeMap_def loadMap_def)

lemma notify_calls:
  "snd (notifyIfShouldLog js e now st) =
     (if fst (checkShouldLogEvent js e now (fst st)) then snd st @ [e] else snd st)"
  by (simp add: notifyIfShouldLog_def split: prod.splits)

lemma notify_storage:
  "fst (notifyIfShouldLog js e now st) = snd (checkShouldLogEvent js e now (fst st))"
  by (simp add: notifyIfShouldLog_def split: prod.splits)

lemma first_logged:
  assumes "loadMap ls (hashEvent js e) = None"
  shows "fst (checkShouldLogEvent js e now ls)"
  using check_result [of js e now ls] assms by auto

lemma two_within_window:
  assumes fresh: "loadMap ls (hashEvent js e) = None" and same: "js e' = js e"
    and t1: "t1 \<noteq> 0" and close: "t2 - t1 < 1000"
  shows "snd (notifyIfShouldLog js e' t2 (notifyIfShouldLog js e t1 (ls, []))) = [e]"
proof -
  let ?st1 = "notifyIfShouldLog js e t1 (ls, [])"
  have h: "hashEvent js e' = hashEvent js e" using same by (simp add: hashEvent_def)
  have c1: "snd ?st1 = [e]" using first_logged [OF fresh] by (simp add: notify_calls)
  have "loadMap (fst ?st1) (hashEvent js e) = Some t1"
    by (simp add: notify_storage check_store)
  then have "fst (checkShouldLogEvent js e' t2 (fst ?st1)) = False"
    using check_result [of js e' t2 "fst ?st1"] h t1 close by auto
  then show ?thesis using c1 by (simp add: notify_calls)
qed

lemma two_beyond_window:
  assumes fresh: "loadMap ls (hashEvent js e) = None" and same: "js e' = js e"
    and apart: "t2 - t1 > 1000"
  shows "snd (notifyIfShouldLog js e' t2 (notifyIfShouldLog js e t1 (ls, []))) = [e, e']"
proof -
  let ?st1 = "notifyIfShouldLog js e t1 (ls, [])"
  have h: "hashEvent js e' = hashEvent js e" using same by (simp add: hashEvent_def)
  have c1: "snd ?st1 = [e]" using first_logged [OF fresh] by (simp add: notify_calls)
  have "loadMap (fst ?st1) (hashEvent js e) = Some t1"
    by (simp add: notify_storage check_store)
  then have "fst (checkShouldLogEvent js e' t2 (fst ?st1)) \<noteq> False"
    using check_result [of js e' t2 "fst ?st1"] h apart by auto
  then show ?thesis using c1 by (simp add: notify_calls)
qed

lemma check_result_real_clock:
  assumes "1000 \<le> now"
  shows "fst (checkShouldLogEvent js e now ls) = False \<longleftrightarrow>
           (\<exists>p. loadMap ls (hashEvent js e) = Some p \<and> now - p < 1000)"
proof -
  have "now - p < 1000 \<Longrightarrow> p \<noteq> 0" for p using assms by auto
  then show ?thesis using check_result [of js e now ls] by blast
qed

text \<open>
  Claim C1. Timestamps are readings of \<open>Date.now()\<close>, and the clock is at least one
  second past the epoch. Then the check returns false exactly when the record holds,
  for the hash of the event, a timestamp less than 1000 ms before the current time,
  and true otherwise. In both cases it stores the current time for that hash. With no
  entry for the hash at the start, two events with the same serialization make one
  backend call when they are less than 1000 ms apart and two when they are more than
  1000 ms apart.
\<close>

theorem checkShouldLogEvent_window:
  "(1000 \<le> now \<longrightarrow>
      (fst (checkShouldLogEvent js e now ls) = False \<longleftrightarrow>
         (\<exists>p. loadMap ls (hashEvent js e) = Some p \<and> now - p < 1000))) \<and>
   loadMap (snd (checkShouldLogEvent js e now ls)) = (loadMap ls)(hashEvent js e \<mapsto> now) \<and>
   (loadMap ls (hashEvent js e) = None \<and> js e' = js e \<and> 1000 \<le> t1 \<and> t2 - t1 < 1000 \<longrightarrow>
      snd (notifyIfShouldLog js e' t2 (notifyIfShouldLog js e t1 (ls, []))) = [e]) \<and>
   (loadMap ls (hashEvent js e) = None \<and> js e' = js e \<and> 1000 \<le> t1 \<and> t2 - t1 > 1000 \<longrightarrow>
      snd (notifyIfShouldLog js e' t2 (notifyIfShouldLog js e t1 (ls, []))) = [e, e'])"
proof (intro conjI impI)
  assume "1000 \<le> now"
  then show "fst (checkShouldLogEvent js e now ls) = False \<longleftrightarrow>
         (\<exists>p. loadMap ls (hashEvent js e) = Some p \<and> now - p < 1000)"
    by (rule check_result_real_clock)
next
  show "loadMap (snd (checkShouldLogEvent js e now ls)) = (loadMap ls)(hashEvent js e \<mapsto> now)"
    by (rule check_store)
next
  assume "loadMap ls (hashEvent js e) = None \<and> js e' = js e \<and> 1000 \<le> t1 \<and> t2 - t1 < 1000"
  then show "snd (notifyIfShouldLog js e' t2 (notifyIfShouldLog js e t1 (ls, []))) = [e]"
    using two_within_window [of ls js e e' t1 t2] by auto
next
  assume "loadMap ls (hashEvent js e) = None \<and> js e' = js e \<and> 1000 \<le> t1 \<and> t2 - t1 > 1000"
  then show "snd (notifyIfShouldLog js e' t2 (notifyIfShouldLog js e t1 (ls, []))) = [e, e']"
    using two_beyond_window [of ls js e e' t2 t1] by auto
qed

text \<open>The witness: the event is the empty object, whose serialization is the two
  characters \<open>{}\<close> (code units 123 and 125) and whose hash string is \<open>3938\<close>.\<close>

theorem checkShouldLogEvent_window_witness:
  "hashEvent (\<lambda>u :: unit. [123, 125]) () = ''3938'' \<and>
   (1000 :: int) \<le> 1700000000400 \<and>
   fst (checkShouldLogEvent (\<lambda>u :: unit. [123, 125]) () 1700000000400
          \<lparr>PF_EVENTS_HASH_MAP = Some [''3938'' \<mapsto> 1700000000000]\<rparr>) = False \<and>
   loadMap \<lparr>PF_EVENTS_HASH_MAP = None\<rparr> (hashEvent (\<lambda>u :: unit. [123, 125]) ()) = None \<and>
   (1000 :: int) \<le> 1700000000000 \<and>
   (1700000000400 :: int) - 1700000000000 < 1000 \<and>
   snd (notifyIfShouldLog (\<lambda>u :: unit. [123, 125]) () 1700000000400
          (notifyIfShouldLog (\<lambda>u. [123, 125]) () 1700000000000 (\<lparr>PF_EVENTS_HASH_MAP = None\<rparr>, []))) = [()] \<and>
   (1700000002000 :: int) - 1700000000000 > 1000 \<and>
   snd (notifyIfShouldLog (\<lambda>u :: unit. [123, 125]) () 1700000002000
          (notifyIfShouldLog (\<lambda>u. [123, 125]) () 1700000000000 (\<lparr>PF_EVENTS_HASH_MAP = None\<rparr>, []))) = [(), ()]"
proof -
  let ?js = "\<lambda>u :: unit. [123, 125 :: 16 word]"
  let ?old = "\<lparr>PF_EVENTS_HASH_MAP = Some [''3938'' \<mapsto> 1700000000000 :: int]\<rparr>"
  let ?new = "\<lparr>PF_EVENTS_HASH_MAP = None\<rparr>"
  have h: "hashEvent ?js () = ''3938''"
    by (simp add: hashEvent_def ToInt32_def shl5_def int_toString_def nat_toString.simps
        digit_char_def char_of_def bit_0)
  have stored: "loadMap ?old (hashEvent ?js ()) = Some 1700000000000"
    by (simp add: h loadMap_def)
  have fresh: "loadMap ?new (hashEvent ?js ()) = None"
    by (simp add: loadMap_def)
  have a: "fst (checkShouldLogEvent ?js () 1700000000400 ?old) = False"
    using checkShouldLogEvent_window [of 1700000000400 ?js "()" ?old "()" 1700000000000 1700000000400]
      stored by simp
  have b: "snd (notifyIfShouldLog ?js () 1700000000400
          (notifyIfShouldLog ?js () 1700000000000 (?new, []))) = [()]"
    using checkShouldLogEvent_window [of 1700000000400 ?js "()" ?new "()" 1700000000000 1700000000400]
      fresh by simp
  have c: "snd (notifyIfShouldLog ?js () 1700000002000
          (notifyIfShouldLog ?js () 1700000000000 (?new, []))) = [(), ()]"
    using checkShouldLogEvent_window [of 1700000000400 ?js "()" ?new "()" 1700000000000 1700000002000]
      fresh by simp
  from h fresh a b c show ?thesis by simp
qed

section \<open>Properties of the finality watcher\<close>

lemma strict_eq_JStr: "strict_eq v (JStr s) \<longleftrightarrow> v = JStr s"
  by (cases v) (auto simp: strict_eq_def)

text \<open>From any point of the loop: the first answer with a block number ends it.\<close>

lemma waitMined_loop_found:
  assumes "int n < retries" and "a \<le> n"
    and "\<forall>i. a \<le> i \<and> i < n \<longrightarrow> (\<exists>r. request i = Inr r \<and> \<not> receipt_mined r)"
    and "request n = Inr receipt" and "receipt_mined receipt"
  shows "waitMined_loop request retries p a s =
           \<lparr>outcome = Inr (Some (receipt_of receipt)), lookups = Suc n,
            slept_ms = s + int (n - a) * (p * 1000)\<rparr>"
  using assms
proof (induction "n - a" arbitrary: a s)
  case 0
  then have "a = n" by simp
  with 0 show ?case by (subst waitMined_loop.simps) simp
next
  case (Suc k)
  then have lt: "a < n" by simp
  with Suc.prems obtain r where r: "request a = Inr r" "\<not> receipt_mined r" by auto
  have "waitMined_loop request retries p (Suc a) (s + p * 1000) =
          \<lparr>outcome = Inr (Some (receipt_of receipt)), lookups = Suc n,
           slept_ms = (s + p * 1000) + int (n - Suc a) * (p * 1000)\<rparr>"
    using Suc.hyps(2) Suc.prems lt by (intro Suc.hyps(1)) auto
  moreover have "int (n - a) = int (n - Suc a) + 1" using lt by simp
  ultimately show ?case using r lt Suc.prems(1)
    by (subst waitMined_loop.simps) (simp add: algebra_simps)
qed

text \<open>From any point of the loop: without a block number in any answer, the budget runs out.\<close>

lemma waitMined_loop_exhausted:
  assumes "\<forall>i. a \<le> i \<and> int i < retries \<longrightarrow> (\<exists>r. request i = Inr r \<and> \<not> receipt_mined r)"
  shows "waitMined_loop request retries p a s =
           \<lparr>outcome = Inr None, lookups = (if int a < retries then nat retries else a),
            slept_ms = s + int (nat retries - a) * (p * 1000)\<rparr>"
  using assms
proof (induction request retries p a s rule: waitMined_loop.induct)
  case (1 request retries p a s)
  show ?case
  proof (cases "int a < retries")
    case False
    then show ?thesis by (subst waitMined_loop.simps) simp
  next
    case True
    with 1(2) obtain r where r: "request a = Inr r" "\<not> receipt_mined r" by auto
    have ih: "waitMined_loop request retries p (Suc a) (s + p * 1000) =
           \<lparr>outcome = Inr None, lookups = (if int (Suc a) < retries then nat retries else Suc a),
            slept_ms = (s + p * 1000) + int (nat retries - Suc a) * (p * 1000)\<rparr>"
      using 1(1) [OF True r] 1(2) by auto
    have "int (nat retries - a) = int (nat retries - Suc a) + 1" using True by linarith
    moreover have "(if int (Suc a) < retries then nat retries else Suc a) = nat retries"
      using True by auto
    ultimately show ?thesis using True r ih
      by (subst waitMined_loop.simps) (simp add: algebra_simps)
  qed
qed

text \<open>
  Claim C6. Without arguments \<open>waitMined\<close> has a budget of 50 lookups and an interval
  of 5 seconds. When the lookups before number \<open>n\<close> (inside the budget) answer without
  a block number and lookup \<open>n\<close> answers with one, the watcher returns at once, after
  \<open>n + 1\<close> lookups and \<open>n\<close> sleeps of the interval, with the block number and the
  status \<open>FAILURE\<close> when the receipt's status is the zero code \<open>0x0\<close> and \<open>SUCCESS\<close>
  for any other status. When no lookup of the budget answers with a block number, it
  returns \<open>null\<close> (not an error) after as many lookups as the budget has.
\<close>

theorem waitMined_polling:
  "waitMined request None None = waitMined request (Some 50) (Some 5) \<and>
   ((\<forall>i<n. \<exists>r. request i = Inr r \<and> \<not> receipt_mined r) \<and> int n < retries \<and>
    request n = Inr receipt \<and> receipt_mined receipt \<longrightarrow>
      waitMined request (Some retries) (Some interval) =
        \<lparr>outcome = Inr (Some \<lparr>blockNumber = prop_of receipt ''blockNumber'',
                               status = (if prop_of receipt ''status'' = JStr ''0x0'' then FAILURE else SUCCESS)\<rparr>),
         lookups = n + 1, slept_ms = int n * (interval * 1000)\<rparr>) \<and>
   ((\<forall>i. int i < retries \<longrightarrow> (\<exists>r. request i = Inr r \<and> \<not> receipt_mined r)) \<longrightarrow>
      waitMined request (Some retries) (Some interval) =
        \<lparr>outcome = Inr None, lookups = nat retries, slept_ms = int (nat retries) * (interval * 1000)\<rparr>)"
proof (intro conjI impI)
  show "waitMined request None None = waitMined request (Some 50) (Some 5)"
    by (simp add: waitMined_def)
next
  assume h: "(\<forall>i<n. \<exists>r. request i = Inr r \<and> \<not> receipt_mined r) \<and> int n < retries \<and>
    request n = Inr receipt \<and> receipt_mined receipt"
  then have "waitMined_loop request retries interval 0 0 =
           \<lparr>outcome = Inr (Some (receipt_of receipt)), lookups = Suc n,
            slept_ms = 0 + int (n - 0) * (interval * 1000)\<rparr>"
    by (intro waitMined_loop_found) auto
  then show "waitMined request (Some retries) (Some interval) =
        \<lparr>outcome = Inr (Some \<lparr>blockNumber = prop_of receipt ''blockNumber'',
                               status = (if prop_of receipt ''status'' = JStr ''0x0'' then FAILURE else SUCCESS)\<rparr>),
         lookups = n + 1, slept_ms = int n * (interval * 1000)\<rparr>"
    by (simp add: waitMined_def receipt_of_def strict_eq_JStr)
next
  assume h: "\<forall>i. int i < retries \<longrightarrow> (\<exists>r. request i = Inr r \<and> \<not> receipt_mined r)"
  then have "waitMined_loop request retries interval 0 0 =
           \<lparr>outcome = Inr None, lookups = (if int 0 < retries then nat retries else 0),
            slept_ms = 0 + int (nat retries - 0) * (interval * 1000)\<rparr>"
    by (intro waitMined_loop_exhausted) auto
  then show "waitMined request (Some retries) (Some interval) =
        \<lparr>outcome = Inr None, lookups = nat retries, slept_ms = int (nat retries) * (interval * 1000)\<rparr>"
    by (simp add: waitMined_def)
qed

theorem waitMined_polling_witness:
  "waitMined mined_at_third None None =
     \<lparr>outcome = Inr (Some \<lparr>blockNumber = JStr ''0x10'', status = FAILURE\<rparr>),
      lookups = 3, slept_ms = 10000\<rparr> \<and>
   waitMined (\<lambda>i. Inr JNull) None None = \<lparr>outcome = Inr None, lookups = 50, slept_ms = 250000\<rparr>"
proof -
  have a: "waitMined mined_at_third (Some 50) (Some 5) =
     \<lparr>outcome = Inr (Some \<lparr>blockNumber = JStr ''0x10'', status = FAILURE\<rparr>),
      lookups = 3, slept_ms = 10000\<rparr>"
    using waitMined_polling [of mined_at_third 2 50
        "JObj [(''blockNumber'', JStr ''0x10''), (''status'', JStr ''0x0'')]" 5]
    by (simp add: mined_at_third_def receipt_mined_def prop_of_def)
  have b: "waitMined (\<lambda>i. Inr JNull) (Some 50) (Some 5) = \<lparr>outcome = Inr None, lookups = 50, slept_ms = 250000\<rparr>"
    using waitMined_polling [of "\<lambda>i. Inr JNull" 0 50 JNull 5]
    by (simp add: receipt_mined_def)
  from a b waitMined_polling [of mined_at_third 0 50 JNull 5]
    waitMined_polling [of "\<lambda>i. Inr JNull" 0 50 JNull 5]
  show ?thesis by simp
qed

section \<open>Properties of the session stores\<close>

lemma str_truthy_present: "str_truthy v \<longleftrightarrow> present v"
  by (cases v) (auto simp: str_truthy_def present_def)

lemma present_val: "present v \<Longrightarrow> v = Some (str_val v) \<and> str_val v \<noteq> []"
  by (cases v) (auto simp: present_def str_val_def)

lemma fetch_valid:
  assumes "cb_required_present nv ls"
  shows "fetchCbObject nv ls current =
     Some \<lparr>sessionId = str_val (session_id ls), sessionSecret = str_val (session_secret ls),
           addresses = str_val (case nv of Some v \<Rightarrow> Some v | None \<Rightarrow> Addresses ls),
           linked = ''1'', defaultChainId = str_val (DefaultChainId ls),
           defaultJsonRpcUrl = str_val (DefaultJsonRpcUrl ls)\<rparr>"
proof -
  have "present (Some ''1'')" by (simp add: present_def)
  moreover have "str_val (Some ''1'') = ''1''" by (simp add: str_val_def)
  moreover have "0 < length (str_val (case nv of Some v \<Rightarrow> Some v | None \<Rightarrow> Addresses ls))"
    using assms present_val [of "case nv of Some v \<Rightarrow> Some v | None \<Rightarrow> Addresses ls"]
    by (simp add: cb_required_present_def)
  ultimately show ?thesis using assms
    by (simp add: fetchCbObject_def cb_required_present_def Let_def str_truthy_present)
qed

lemma fetch_invalid:
  assumes "\<not> cb_required_present nv ls"
  shows "fetchCbObject nv ls current = current"
  using assms
  by (auto simp: fetchCbObject_def cb_required_present_def Let_def str_truthy_present)

lemma fetch_valid_complete:
  assumes "cb_required_present nv ls" and "fetchCbObject nv ls current = Some cb"
  shows "cb_complete cb"
  using assms(2) unfolding fetch_valid [OF assms(1)]
  using assms(1) present_val [of "session_id ls"] present_val [of "session_secret ls"]
    present_val [of "DefaultChainId ls"] present_val [of "DefaultJsonRpcUrl ls"]
    present_val [of "case nv of Some v \<Rightarrow> Some v | None \<Rightarrow> Addresses ls"]
  by (auto simp: cb_complete_def cb_required_present_def)

text \<open>
  Claim C9. Starting without a session, \<open>fetchCbObject\<close> yields a session exactly when
  the session id, the linked flag equal to \<open>1\<close>, a non-empty addresses value, the
  session secret, the default chain id and the default RPC URL are all present and not
  empty; the session then carries exactly these six values, none of them empty. When
  one of them is missing or empty the function produces nothing (it leaves the module
  variable as it was), and a variable that holds no session or a complete one never
  comes to hold a partially filled one.
\<close>

theorem fetchCbObject_all_or_nothing:
  "(fetchCbObject nv ls None \<noteq> None \<longleftrightarrow> cb_required_present nv ls) \<and>
   (fetchCbObject nv ls None = Some cb \<longrightarrow>
      cb_complete cb \<and>
      session_id ls = Some (sessionId cb) \<and> session_linked ls = Some (linked cb) \<and>
      (case nv of Some v \<Rightarrow> Some v | None \<Rightarrow> Addresses ls) = Some (addresses cb) \<and>
      session_secret ls = Some (sessionSecret cb) \<and>
      DefaultChainId ls = Some (defaultChainId cb) \<and>
      DefaultJsonRpcUrl ls = Some (defaultJsonRpcUrl cb)) \<and>
   (\<not> cb_required_present nv ls \<longrightarrow> fetchCbObject nv ls current = current) \<and>
   ((\<forall>c. current = Some c \<longrightarrow> cb_complete c) \<longrightarrow>
      (\<forall>c. fetchCbObject nv ls current = Some c \<longrightarrow> cb_complete c))"
proof (intro conjI impI allI)
  show "(fetchCbObject nv ls None \<noteq> None) = cb_required_present nv ls"
  proof (cases "cb_required_present nv ls")
    case True
    then show ?thesis by (simp add: fetch_valid)
  next
    case False
    then show ?thesis by (simp add: fetch_invalid)
  qed
next
  assume h: "fetchCbObject nv ls None = Some cb"
  have v: "cb_required_present nv ls"
  proof (rule ccontr)
    assume "\<not> cb_required_present nv ls"
    then have "fetchCbObject nv ls None = None" by (rule fetch_invalid)
    with h show False by simp
  qed
  show "cb_complete cb" using fetch_valid_complete [OF v h] .
  have eq: "cb = \<lparr>sessionId = str_val (session_id ls), sessionSecret = str_val (session_secret ls),
           addresses = str_val (case nv of Some v \<Rightarrow> Some v | None \<Rightarrow> Addresses ls),
           linked = ''1'', defaultChainId = str_val (DefaultChainId ls),
           defaultJsonRpcUrl = str_val (DefaultJsonRpcUrl ls)\<rparr>"
    using h fetch_valid [OF v, of None] by simp
  show "session_id ls = Some (sessionId cb)"
    using v present_val [of "session_id ls"] by (simp add: eq cb_required_present_def)
  show "session_linked ls = Some (linked cb)"
    using v by (simp add: eq cb_required_present_def)
  show "(case nv of Some v \<Rightarrow> Some v | None \<Rightarrow> Addresses ls) = Some (addresses cb)"
    using v present_val [of "case nv of Some v \<Rightarrow> Some v | None \<Rightarrow> Addresses ls"]
    by (simp add: eq cb_required_present_def)
  show "session_secret ls = Some (sessionSecret cb)"
    using v present_val [of "session_secret ls"] by (simp add: eq cb_required_present_def)
  show "DefaultChainId ls = Some (defaultChainId cb)"
    using v present_val [of "DefaultChainId ls"] by (simp add: eq cb_required_present_def)
  show "DefaultJsonRpcUrl ls = Some (defaultJsonRpcUrl cb)"
    using v present_val [of "DefaultJsonRpcUrl ls"] by (simp add: eq cb_required_present_def)
next
  assume "\<not> cb_required_present nv ls"
  then show "fetchCbObject nv ls current = current" by (rule fetch_invalid)
next
  fix c
  assume inv: "\<forall>c. current = Some c \<longrightarrow> cb_complete c" and h: "fetchCbObject nv ls current = Some c"
  show "cb_complete c"
  proof (cases "cb_required_present nv ls")
    case True
    then show ?thesis using fetch_valid_complete h by blast
  next
    case False
    then show ?thesis using fetch_invalid [of nv ls current] h inv by simp
  qed
qed

theorem fetchCbObject_all_or_nothing_witness:
  "cb_required_present None full_items \<and>
   fetchCbObject None full_items None =
     Some \<lparr>sessionId = ''a1b2'', sessionSecret = ''5ec2e7'', addresses = ''0xabc'', linked = ''1'',
           defaultChainId = ''1'', defaultJsonRpcUrl = ''https://rpc.example''\<rparr> \<and>
   \<not> cb_required_present None (full_items\<lparr>Addresses := Some ''''\<rparr>) \<and>
   fetchCbObject None (full_items\<lparr>Addresses := Some ''''\<rparr>) None = None"
proof -
  let ?cb = "\<lparr>sessionId = ''a1b2'', sessionSecret = ''5ec2e7'', addresses = ''0xabc'', linked = ''1'',
           defaultChainId = ''1'', defaultJsonRpcUrl = ''https://rpc.example''\<rparr>"
  have ok: "cb_required_present None full_items"
    by (simp add: cb_required_present_def present_def full_items_def)
  have bad: "\<not> cb_required_present None (full_items\<lparr>Addresses := Some ''''\<rparr>)"
    by (simp add: cb_required_present_def present_def full_items_def)
  have "fetchCbObject None (full_items\<lparr>Addresses := Some ''''\<rparr>) None = None"
    using fetchCbObject_all_or_nothing [of None "full_items\<lparr>Addresses := Some ''''\<rparr>" ?cb None] bad
    by blast
  moreover obtain cb where cb: "fetchCbObject None full_items None = Some cb"
    using fetchCbObject_all_or_nothing [of None full_items ?cb None] ok by blast
  then have "cb_complete cb \<and> session_id full_items = Some (sessionId cb) \<and>
      session_linked full_items = Some (linked cb) \<and>
      Addresses full_items = Some (addresses cb) \<and>
      session_secret full_items = Some (sessionSecret cb) \<and>
      DefaultChainId full_items = Some (defaultChainId cb) \<and>
      DefaultJsonRpcUrl full_items = Some (defaultJsonRpcUrl cb)"
    using fetchCbObject_all_or_nothing [of None full_items cb None] by simp
  then have "cb = ?cb" by (cases cb) (simp add: full_items_def)
  ultimately show ?thesis using ok bad cb by simp
qed

subsection \<open>Brand detection\<close>

lemma getProviderName_first_match:
  "ethereum w = Some p \<Longrightarrow>
   getProviderNameForMetamask w = Inr (first_match brand_probes (CIPHER_defined w, p))"
  by (simp add: getProviderNameForMetamask_def brand_probes_def)

text \<open>
  Claim C8. The brand detection is the first match in a fixed ordered list of probes.
  In particular, a provider that sets \<open>isMetaMask\<close> together with a flag of its own
  (\<open>isTrust\<close>, \<open>isGoWallet\<close>, \<open>isAlphaWallet\<close>, \<open>isStatus\<close>, \<open>isCoinbaseWallet\<close>,
  \<open>isRabby\<close> or \<open>isFrame\<close>) is never named \<open>metamask\<close>: it gets the label of the first
  of its own flags in the order of the probes.
\<close>

theorem getProviderNameForMetamask_priority:
  "(ethereum w = Some p \<longrightarrow>
      getProviderNameForMetamask w = Inr (first_match brand_probes (CIPHER_defined w, p))) \<and>
   (ethereum w = Some p \<and> isMetaMask p \<and>
    (isTrust p \<or> isGoWallet p \<or> isAlphaWallet p \<or> isStatus p \<or> isCoinbaseWallet p \<or>
     isRabby p \<or> isFrame p) \<longrightarrow>
      getProviderNameForMetamask w \<noteq> Inr ''metamask'' \<and>
      getProviderNameForMetamask w =
        Inr (if isTrust p then ''trust'' else if isGoWallet p then ''gowallet''
             else if isAlphaWallet p then ''alphawallet'' else if isStatus p then ''status''
             else if isCoinbaseWallet p then ''coinbase'' else if isRabby p then ''rabby''
             else ''frame''))"
  by (auto simp: getProviderNameForMetamask_def brand_probes_def)

theorem getProviderNameForMetamask_priority_witness:
  "ethereum \<lparr>ethereum = Some trust_flags, CIPHER_defined = False\<rparr> = Some trust_flags \<and>
   isMetaMask trust_flags \<and> isTrust trust_flags \<and>
   getProviderNameForMetamask \<lparr>ethereum = Some trust_flags, CIPHER_defined = False\<rparr> = Inr ''trust'' \<and>
   getProviderNameForMetamask \<lparr>ethereum = Some trust_flags, CIPHER_defined = False\<rparr> \<noteq> Inr ''metamask''"
proof -
  let ?w = "\<lparr>ethereum = Some trust_flags, CIPHER_defined = False\<rparr>"
  have h: "ethereum ?w = Some trust_flags \<and> isMetaMask trust_flags \<and>
    (isTrust trust_flags \<or> isGoWallet trust_flags \<or> isAlphaWallet trust_flags \<or>
     isStatus trust_flags \<or> isCoinbaseWallet trust_flags \<or> isRabby trust_flags \<or> isFrame trust_flags)"
    by (simp add: trust_flags_def)
  with getProviderNameForMetamask_priority [of ?w trust_flags]
  have "getProviderNameForMetamask ?w \<noteq> Inr ''metamask'' \<and>
      getProviderNameForMetamask ?w =
        Inr (if isTrust trust_flags then ''trust'' else if isGoWallet trust_flags then ''gowallet''
             else if isAlphaWallet trust_flags then ''alphawallet'' else if isStatus trust_flags then ''status''
             else if isCoinbaseWallet trust_flags then ''coinbase'' else if isRabby trust_flags then ''rabby''
             else ''frame'')"
    by blast
  moreover have "isTrust trust_flags" "isMetaMask trust_flags" by (simp_all add: trust_flags_def)
  ultimately show ?thesis by simp
qed

text \<open>The earlier revision names the same provider \<open>metamask\<close>.\<close>

lemma getProviderNameForMetamask_earlier_example:
  "getProviderNameForMetamask_earlier False sample_window = Inr ''metamask''"
  by (simp add: getProviderNameForMetamask_earlier_def sample_window_def trust_flags_def)

section \<open>Properties of the bridge cipher\<close>

lemmas hex_eval = hexStringToUint8Array_def parseInt16_def strip_sign_def strip_0x_def white_space_def
  hex_digit_def ToUint8_def line_terminator_def Let_def





lemma parseInt16_examples: "hexStringToUint8Array ''zz0g-1 f'' = Inr [0, 0, 255, 15]"
  by (simp add: hex_eval)












section \<open>Properties of the provider interceptor\<close>

lemma Reflect_get_lookup:
  "Reflect_get target key receiver =
     (case lookup_property target key of
        None \<Rightarrow> Inr (Val JUndefined)
      | Some (DataProperty v) \<Rightarrow> Inr v
      | Some (AccessorProperty getter) \<Rightarrow> getter receiver)"
  by (induction target key receiver rule: Reflect_get.induct)
     (simp split: option.splits property.splits)

lemma Reflect_get_this_independent:
  "this_independent target prop \<Longrightarrow> Reflect_get target prop ThisProxy = Reflect_get target prop ThisTarget"
  by (simp add: Reflect_get_lookup this_independent_def split: option.splits property.splits)

text \<open>
  Claim C5, as stated, fails for an accessor property. The trap hands the wrapper to
  \<open>Reflect.get\<close> as receiver, so a getter runs with \<open>this\<close> bound to the wrapper. The
  provider keeps its chain id in a private field behind a getter: read on the
  provider itself, \<open>chainId\<close> is \<open>0x1\<close>; read through the wrapper, the getter throws
  a TypeError.
\<close>

theorem proxy_read_accessor_counterexample:
  "direct_read private_field_provider (PString ''chainId'') = Inr (Val (JStr ''0x1'')) \<and>
   proxy_read private_field_provider (PString ''chainId'') = PassThrough (Inl TypeError)"
  by (simp add: direct_read_def proxy_read_def handler_get_def proxiedFunctions_def
      private_field_provider_def)

text \<open>
  Claim C5, amended. For every property key other than the string \<open>request\<close> (symbols
  included), reading the key through the wrapper gives what \<open>Reflect.get\<close> gives on
  the underlying provider with the wrapper as receiver. This is exactly the
  provider's own property (the result of reading the key on the provider itself)
  whenever the read finds a data property, own or inherited, or no property, or an
  accessor whose getter does not depend on \<open>this\<close>. Only \<open>request\<close> is replaced by
  the wrapper function.
\<close>

theorem handler_get_pass_through:
  "(prop \<noteq> PString ''request'' \<longrightarrow>
      proxy_read target prop = PassThrough (Reflect_get target prop ThisProxy)) \<and>
   (prop \<noteq> PString ''request'' \<and> this_independent target prop \<longrightarrow>
      proxy_read target prop = PassThrough (direct_read target prop)) \<and>
   proxy_read target (PString ''request'') = RequestWrapper"
proof (intro conjI impI)
  assume "prop \<noteq> PString ''request''"
  then show "proxy_read target prop = PassThrough (Reflect_get target prop ThisProxy)"
    by (simp add: proxy_read_def handler_get_def proxiedFunctions_def)
next
  assume h: "prop \<noteq> PString ''request'' \<and> this_independent target prop"
  then have "Reflect_get target prop ThisProxy = Reflect_get target prop ThisTarget"
    by (simp add: Reflect_get_this_independent)
  with h show "proxy_read target prop = PassThrough (direct_read target prop)"
    by (simp add: proxy_read_def direct_read_def handler_get_def proxiedFunctions_def)
next
  show "proxy_read target (PString ''request'') = RequestWrapper"
    by (simp add: proxy_read_def handler_get_def proxiedFunctions_def)
qed

theorem handler_get_pass_through_witness:
  "PString ''isMetaMask'' \<noteq> PString ''request'' \<and>
   this_independent plain_provider (PString ''isMetaMask'') \<and>
   direct_read plain_provider (PString ''isMetaMask'') = Inr (Val (JBool True)) \<and>
   proxy_read plain_provider (PString ''isMetaMask'') = PassThrough (Inr (Val (JBool True))) \<and>
   PString ''on'' \<noteq> PString ''request'' \<and>
   this_independent plain_provider (PString ''on'') \<and>
   proxy_read plain_provider (PString ''on'') = PassThrough (Inr (Fun ''on''))"
proof -
  have a: "this_independent plain_provider (PString ''isMetaMask'')"
    "this_independent plain_provider (PString ''on'')"
    by (simp_all add: this_independent_def plain_provider_def)
  have b: "direct_read plain_provider (PString ''isMetaMask'') = Inr (Val (JBool True))"
    "direct_read plain_provider (PString ''on'') = Inr (Fun ''on'')"
    by (simp_all add: direct_read_def plain_provider_def)
  have "proxy_read plain_provider (PString ''isMetaMask'') =
      PassThrough (direct_read plain_provider (PString ''isMetaMask''))"
    using handler_get_pass_through [of "PString ''isMetaMask''" plain_provider] a(1) by blast
  moreover have "proxy_read plain_provider (PString ''on'') =
      PassThrough (direct_read plain_provider (PString ''on''))"
    using handler_get_pass_through [of "PString ''on''" plain_provider] a(2) by blast
  ultimately show ?thesis using a b by simp
qed

section \<open>Properties of the provider interceptor: failures\<close>

lemma sample_request_args:
  "request_args send_request = Inr (JStr ''eth_sendTransaction'', JArr [sample_tx])"
  by (simp add: request_args_def send_request_def nth_arg_def andThen_def)

lemma sample_wallet:
  "injected_wallet sample_window (tx_from_lower (JArr [sample_tx])) =
     Inr \<lparr>wallet_type = ''injected'', wallet = ''0xabc'', walletProvider = ''trust''\<rparr>"
  by (simp add: injected_wallet_def tx_from_lower_def andThen_def sample_tx_def lower_char_def
      getProviderNameForMetamask_def sample_window_def trust_flags_def char_of_def bit_0)

text \<open>With the user-rejected code 4001 and the parameters of a transaction, the wrapper
  calls \<open>logSendTransaction\<close> with the status \<open>CANCELLED\<close> and no hash.\<close>

lemma request_wrapper_user_rejected:
  "request_wrapper sample_window rejecting_user send_request =
     (Fulfilled JUndefined,
      [LogSendTransaction sample_tx CANCELLED JNull
         \<lparr>wallet_type = ''injected'', wallet = ''0xabc'', walletProvider = ''trust''\<rparr>])"
  by (simp add: rejecting_user_def request_wrapper_def sample_request_args
      try_block_def catch_block_def err_code_def andThen_def sample_wallet)

text \<open>No error of the underlying call with a code other than 4001 reaches the caller.\<close>

lemma request_wrapper_swallows:
  assumes "request_args args = Inr (method, params)" and "target_request args = Inl err"
    and "err_code err \<noteq> Some 4001"
  shows "request_wrapper w target_request args = (Fulfilled JUndefined, [])"
  using assms
  by (auto simp: request_wrapper_def try_block_def catch_block_def andThen_def split: option.splits)

text \<open>
  Claim C3 fails on the code for every error other than the user rejection. The
  underlying provider rejects \<open>eth_sendTransaction\<close> with the error of code -32000;
  called directly, the caller gets this rejection. Through the wrapper the \<open>catch\<close>
  block logs the error and ends, there is no \<open>throw\<close>: the promise of the wrapper is
  fulfilled with \<open>undefined\<close> and the error is lost. (The earlier revisions of the
  handler have no \<open>try\<close> around the call and let the error through.)
\<close>

theorem request_wrapper_swallows_provider_error:
  "direct_call failing_provider send_request = Rejected (ProviderRpcError (- 32000) ''insufficient funds'') \<and>
   request_wrapper sample_window failing_provider send_request = (Fulfilled JUndefined, [])"
  by (simp add: direct_call_def failing_provider_def request_wrapper_def sample_request_args
      try_block_def catch_block_def err_code_def andThen_def)

section \<open>Properties of the transport interceptor\<close>

lemmas sample_defs = sample_platform_def toy_crypto_def wc_frame_def wc_payload_def wc_response_body_def
  sample_wc_def sample_tx_def pending_state_def json_quote_def int_toString_def nat_toString.simps
  digit_char_def char_of_def bit_0

lemmas js_defs = prop_of_def strict_eq_def andThen_def Map_has_def Map_get_def Map_set_def
  completes_def rejects_def log_tx_def wc_wallet_def cb_wallet_def lower_char_def Let_def

subsection \<open>Outbound frames are forwarded\<close>

lemma try_outcome_thrown: "try_outcome originalSend arguments (thrown e st)"
  by (simp add: try_outcome_def thrown_def)

lemma try_outcome_forward: "try_outcome originalSend arguments (forward originalSend arguments chain st)"
  by (simp add: try_outcome_def forward_def)

lemma proxiedSend_try_outcome:
  "try_outcome originalSend arguments (proxiedSend_try env originalSend st arguments)"
  by (simp add: proxiedSend_try_def try_outcome_thrown try_outcome_forward
      split: option.splits sum.splits call.splits promise.splits prod.splits)

lemma proxiedSend_once:
  assumes "originalSend arguments = Inr v"
  shows "forwarded (proxiedSend env originalSend st arguments) = [arguments] \<and>
         returned (proxiedSend env originalSend st arguments) = Inr v"
  using proxiedSend_try_outcome [of originalSend arguments env st] assms
  by (auto simp: proxiedSend_def try_outcome_def Let_def split: sum.splits)

text \<open>When the socket's own \<open>send\<close> throws, it does so inside the \<open>try\<close>, and the
  \<open>catch\<close> calls it a second time.\<close>

lemma proxiedSend_forwards_twice_example:
  "proxiedSend sample_platform (\<lambda>args. Inl (Error ''InvalidStateError'')) pending_state
     [JStr (json_text wc_response_body)] =
     \<lparr>returned = Inl (Error ''InvalidStateError''),
      forwarded = [[JStr (json_text wc_response_body)], [JStr (json_text wc_response_body)]],
      deferred = Fulfilled (), state_after_send = pending_state\<rparr>"
proof -
  have p: "JSON_parse sample_platform (nth_arg [JStr (json_text wc_response_body)] 0) = Some wc_response_body"
    by (simp add: sample_defs nth_arg_def)
  have q: "truthy wc_response_body" "prop_of wc_response_body ''payload'' = JUndefined"
    "prop_of wc_response_body ''type'' = JUndefined"
    by (simp_all add: wc_response_body_def prop_of_def)
  show ?thesis
    by (simp add: proxiedSend_def proxiedSend_try_def p q forward_def strict_eq_def Let_def)
qed

subsection \<open>Inbound frames\<close>

lemma parse_ping: "JSON_parse sample_platform (JStr ''ping'') = None"
  by (simp add: sample_defs)

text \<open>
  Claim C4 fails on the code for inbound frames. A socket of the page receives the
  text \<open>ping\<close>, which is not JSON. Sent through \<open>proxiedSend\<close>, the same text is
  forwarded once and nothing is thrown: the \<open>try\<close>/\<open>catch\<close> takes the SyntaxError of
  \<open>JSON.parse\<close>. The listener for inbound frames has no such boundary: the
  SyntaxError rejects the promise of the listener, which nothing handles.
\<close>

theorem onMessage_rejects_on_malformed_frame:
  "onMessage sample_platform pending_state (JStr ''ping'') =
     \<lparr>settled = Rejected SyntaxError, log_calls = [], state_after = pending_state\<rparr> \<and>
   proxiedSend sample_platform (\<lambda>args. Inr JUndefined) pending_state [JStr ''ping''] =
     \<lparr>returned = Inr JUndefined, forwarded = [[JStr ''ping'']], deferred = Fulfilled (),
      state_after_send = pending_state\<rparr>"
  by (simp add: onMessage_def proxiedSend_def proxiedSend_try_def parse_ping rejects_def thrown_def
      nth_arg_def Let_def)

text \<open>The same holds on every platform, for every frame that \<open>JSON.parse\<close> refuses.\<close>

lemma onMessage_rejects_unparsable:
  "JSON_parse env e_data = None \<Longrightarrow> settled (onMessage env st e_data) = Rejected SyntaxError"
  by (simp add: onMessage_def rejects_def)

subsection \<open>The pending requests\<close>

lemma log_tx_state: "state_after (log_tx st txData txStatus result walletExpr) = st"
  by (simp add: log_tx_def rejects_def split: sum.splits)

lemma wc_response_state: "state_after (wc_response st wc decrypted) = st"
  by (simp add: wc_response_def log_tx_state rejects_def completes_def Let_def split: sum.splits)

lemma cb_response_state: "state_after (cb_response st decrypted) = st"
  by (simp add: cb_response_def log_tx_state rejects_def completes_def Let_def split: sum.splits)

lemma onMessage_state: "state_after (onMessage env st e_data) = st"
  by (simp add: onMessage_def wc_response_state cb_response_state rejects_def completes_def
      split: option.splits sum.splits call.splits promise.splits)

lemma parse_frame: "JSON_parse sample_platform (JStr (json_text wc_frame)) = Some wc_frame"
  by (simp add: sample_platform_def)

lemma parse_payload: "JSON_parse sample_platform (JStr (json_text wc_payload)) = Some wc_payload"
  by (simp add: sample_defs)

lemma parse_body: "JSON_parse sample_platform (JStr (json_text wc_response_body)) = Some wc_response_body"
  by (simp add: sample_defs)

lemma decrypt_payload: "decrypt sample_platform wc_payload sample_wc = Inr wc_response_body"
proof -
  have "aesCbcDecrypt_utf8 sample_platform (wc_key sample_wc) (prop_of wc_payload ''iv'') (prop_of wc_payload ''data'')
      = Inr (JStr (json_text wc_response_body))"
    by (simp add: sample_platform_def sample_wc_def wc_payload_def prop_of_def)
  then show ?thesis by (simp add: decrypt_def andThen_def parse_body)
qed

lemma response_logged:
  "wc_response pending_state sample_wc wc_response_body =
     \<lparr>settled = Fulfilled (), log_calls = [sample_call], state_after = pending_state\<rparr>"
  by (simp add: wc_response_def wc_response_body_def pending_state_def sample_tx_def sample_wc_def
      sample_call_def js_defs char_of_def bit_0)

lemma frame_handled:
  "onMessage sample_platform pending_state (JStr (json_text wc_frame)) =
     \<lparr>settled = Fulfilled (), log_calls = [sample_call], state_after = pending_state\<rparr>"
proof -
  have a: "truthy wc_frame" "json_text wc_payload \<noteq> []"
    "prop_of wc_frame ''topic'' = JStr ''client-1''"
    "prop_of wc_frame ''payload'' = JStr (json_text wc_payload)"
    by (simp_all add: wc_frame_def wc_payload_def prop_of_def)
  have b: "wcObject pending_state = Some sample_wc" "clientId sample_wc = ''client-1''"
    by (simp_all add: pending_state_def sample_wc_def)
  have c: "truthy wc_payload" by (simp add: wc_payload_def)
  show ?thesis
    by (simp add: onMessage_def parse_frame a b c strict_eq_def parse_payload decrypt_payload
        response_logged)
qed

text \<open>
  Claim C2, as stated, fails: the entry is not removed. The map holds the parameters
  of the transaction sent under the id 7; the answer of the wallet with the id 7
  arrives and \<open>logSendTransaction\<close> is called with the status \<open>PENDING\<close> and the hash.
  After that the map still has the id 7, and the same frame arriving once more calls
  \<open>logSendTransaction\<close> once more.
\<close>

theorem onMessage_keeps_pending_entry_counterexample:
  "Map_has (wsMessages pending_state) (JNum 7) \<and>
   log_calls (fst (onMessage_twice sample_platform pending_state
                     (JStr (json_text wc_frame)) (JStr (json_text wc_frame)))) = [sample_call] \<and>
   Map_has (wsMessages (state_after (fst (onMessage_twice sample_platform pending_state
                     (JStr (json_text wc_frame)) (JStr (json_text wc_frame)))))) (JNum 7) \<and>
   log_calls (snd (onMessage_twice sample_platform pending_state
                     (JStr (json_text wc_frame)) (JStr (json_text wc_frame)))) = [sample_call]"
proof -
  have "Map_has (wsMessages pending_state) (JNum 7)"
    by (simp add: Map_has_def pending_state_def)
  then show ?thesis by (simp add: onMessage_twice_def frame_handled Let_def)
qed

text \<open>
  Claim C2, amended. The listener for inbound frames only reads the map of pending
  requests: handling a frame, with a matching id or not, successfully or not, leaves
  the map and the sessions as they were. A later frame is therefore handled exactly
  as if the earlier one had not arrived; with the same id it finds the same entry and
  leads to the same calls of \<open>logSendTransaction\<close>.
\<close>

theorem onMessage_never_consumes:
  "state_after (onMessage env st e_data) = st \<and>
   snd (onMessage_twice env st e_data later_data) = onMessage env st later_data"
  by (simp add: onMessage_twice_def onMessage_state Let_def)

end
